theory Spec2Isabelle
  imports Main
begin

section \<open>Values, objects and the store\<close>

text \<open>
  The module \<^verbatim>\<open>src/wrapt/wrappers.py\<close> defines five proxy classes over a common base
  \<^verbatim>\<open>WrapperBase\<close>. A proxy is an ordinary Python object: its fields live in its
  instance dictionary under names that start with \<^verbatim>\<open>_self_\<close>, and it forwards
  attribute reads and writes to the object it wraps. Objects are therefore kept in an
  explicit store, addressed by natural numbers; every object is its class together with
  its instance dictionary. Values that Python treats as immutable are written as values.
\<close>

type_synonym addr = nat

datatype pyclass =
    Function | Classmethod | Staticmethod | Other string
  | GenericWrapper | BoundGenericWrapper | FunctionWrapper
  | MethodWrapper | BoundMethodWrapper

datatype val =
    VNone | VNotImplemented | VBool bool | VInt int | VStr string
  | VTuple "val list" | VDict "(string \<times> val) list"
  | VClass pyclass | VRef addr
  | VPartial val "val list" | VMethod val val | VClassAttr pyclass string

datatype error = AttributeError | IndexError | TypeError | RecursionError

record pyobj =
  ob_type :: pyclass
  ob_dict :: "string \<rightharpoonup> val"

type_synonym heap = "addr \<Rightarrow> pyobj"

text \<open>
  The host operations \<^verbatim>\<open>getattr(obj, name)\<close> and \<^verbatim>\<open>setattr(obj, name, value)\<close>.
  The functions of the module take them as parameters; the host's own dispatch
  (\<open>py_getattr\<close>, \<open>py_setattr\<close> below) closes the recursion.
\<close>

type_synonym hgetattr = "heap \<Rightarrow> val \<Rightarrow> string \<Rightarrow> error + val"
type_synonym hsetattr = "heap \<Rightarrow> val \<Rightarrow> string \<Rightarrow> val \<Rightarrow> error + heap"

text \<open>
  Every \<^verbatim>\<open>__call__\<close> of the module ends in a tail call of the interception callback,
  \<^verbatim>\<open>return self._self_wrapper(..., **self._self_params)\<close>. The model returns that call
  itself: the callee, its positional arguments and its keyword arguments.
\<close>

datatype invocation = Invoke val "val list" "(string \<times> val) list"

definition ebind :: "error + 'a \<Rightarrow> ('a \<Rightarrow> error + 'b) \<Rightarrow> error + 'b" where
  "ebind m f = (case m of Inl e \<Rightarrow> Inl e | Inr x \<Rightarrow> f x)"

text \<open>\<^verbatim>\<open>try: body  except AttributeError: handler\<close>; any other error propagates.\<close>

definition try_AttributeError :: "error + 'a \<Rightarrow> error + 'a \<Rightarrow> error + 'a" where
  "try_AttributeError body handler =
     (case body of Inl AttributeError \<Rightarrow> handler | _ \<Rightarrow> body)"

definition startswith :: "string \<Rightarrow> string \<Rightarrow> bool" where
  "startswith name p = (take (length p) name = p)"

definition is_wrapper :: "pyclass \<Rightarrow> bool" where
  "is_wrapper c =
     (c \<in> {GenericWrapper, BoundGenericWrapper, FunctionWrapper, MethodWrapper,
            BoundMethodWrapper})"

text \<open>
  \<^verbatim>\<open>object.__setattr__(self, name, value)\<close> on an object with an instance dictionary.
  The module calls it with the names \<^verbatim>\<open>_self_...\<close>, \<^verbatim>\<open>__qualname__\<close> and
  \<^verbatim>\<open>__name__\<close>; it is also the \<^verbatim>\<open>setattr\<close> of an object that is not a proxy.
  Assigning \<^verbatim>\<open>__class__\<close> changes the object's class.
\<close>

definition object_setattr :: "heap \<Rightarrow> addr \<Rightarrow> string \<Rightarrow> val \<Rightarrow> error + heap" where
  "object_setattr h self name value =
     (if name = ''__class__''
      then (case value of
              VClass c \<Rightarrow> Inr (h(self := (h self)\<lparr>ob_type := c\<rparr>))
            | _ \<Rightarrow> Inl TypeError)
      else Inr (h(self := (h self)\<lparr>ob_dict := (ob_dict (h self))(name \<mapsto> value)\<rparr>)))"

text \<open>The default attribute read of an object that is not a proxy.\<close>

definition object_getattribute :: "heap \<Rightarrow> addr \<Rightarrow> string \<Rightarrow> error + val" where
  "object_getattribute h a name =
     (if name = ''__class__'' then Inr (VClass (ob_type (h a)))
      else case ob_dict (h a) name of Some v \<Rightarrow> Inr v | None \<Rightarrow> Inl AttributeError)"

fun py_type :: "heap \<Rightarrow> val \<Rightarrow> pyclass" where
  "py_type h VNone = Other ''NoneType''"
| "py_type h VNotImplemented = Other ''NotImplementedType''"
| "py_type h (VBool b) = Other ''bool''"
| "py_type h (VInt i) = Other ''int''"
| "py_type h (VStr s) = Other ''str''"
| "py_type h (VTuple xs) = Other ''tuple''"
| "py_type h (VDict kvs) = Other ''dict''"
| "py_type h (VClass c) = Other ''type''"
| "py_type h (VRef a) = ob_type (h a)"
| "py_type h (VPartial f xs) = Other ''functools.partial''"
| "py_type h (VMethod f i) = Other ''method''"
| "py_type h (VClassAttr c n) = Function"

section \<open>WrapperOverrideMethods and WrapperBase\<close>

text \<open>
  \<^verbatim>\<open>def __setattr__(self, name, value):
      if name.startswith('_self_'): object.__setattr__(self, name, value)
      else: setattr(self._self_wrapped, name, value)\<close>
\<close>

definition WrapperBase_setattr ::
  "hgetattr \<Rightarrow> hsetattr \<Rightarrow> heap \<Rightarrow> addr \<Rightarrow> string \<Rightarrow> val \<Rightarrow> error + heap" where
  "WrapperBase_setattr ga sa h self name value =
     (if startswith name ''_self_''
      then object_setattr h self name value
      else ebind (ga h (VRef self) ''_self_wrapped'') (\<lambda>w. sa h w name value))"

text \<open>\<^verbatim>\<open>def __getattr__(self, name): return getattr(self._self_wrapped, name)\<close>\<close>

definition WrapperBase_getattr :: "hgetattr \<Rightarrow> heap \<Rightarrow> addr \<Rightarrow> string \<Rightarrow> error + val" where
  "WrapperBase_getattr ga h self name =
     ebind (ga h (VRef self) ''_self_wrapped'') (\<lambda>w. ga h w name)"

text \<open>The property getters, each as the source spells it.\<close>

definition WrapperOverrideMethods_module :: "hgetattr \<Rightarrow> heap \<Rightarrow> addr \<Rightarrow> error + val" where
  "WrapperOverrideMethods_module ga h self =
     ebind (ga h (VRef self) ''_self_wrapped'') (\<lambda>w. ga h w ''__module__'')"

definition WrapperOverrideMethods_doc :: "hgetattr \<Rightarrow> heap \<Rightarrow> addr \<Rightarrow> error + val" where
  "WrapperOverrideMethods_doc ga h self =
     ebind (ga h (VRef self) ''_self_wrapped'') (\<lambda>w. ga h w ''__doc__'')"

definition WrapperBase_class :: "hgetattr \<Rightarrow> heap \<Rightarrow> addr \<Rightarrow> error + val" where
  "WrapperBase_class ga h self =
     ebind (ga h (VRef self) ''_self_wrapped'') (\<lambda>w. ga h w ''__class__'')"

text \<open>
  \<^verbatim>\<open>@property
  def __annotations__(self): return self._self_wrapped.__anotations__\<close>
  (the attribute read on the wrapped object is spelt with one \<^verbatim>\<open>n\<close> in the source).
\<close>

definition WrapperBase_annotations :: "hgetattr \<Rightarrow> heap \<Rightarrow> addr \<Rightarrow> error + val" where
  "WrapperBase_annotations ga h self =
     ebind (ga h (VRef self) ''_self_wrapped'') (\<lambda>w. ga h w ''__anotations__'')"

text \<open>
  \<^verbatim>\<open>@__annotations__.setter
  def __annotations__(self, value): self._self_wrapped.__annotations__ = value\<close>
\<close>

definition WrapperBase_annotations_setter ::
  "hgetattr \<Rightarrow> hsetattr \<Rightarrow> heap \<Rightarrow> addr \<Rightarrow> val \<Rightarrow> error + heap" where
  "WrapperBase_annotations_setter ga sa h self value =
     ebind (ga h (VRef self) ''_self_wrapped'') (\<lambda>w. sa h w ''__annotations__'' value)"

text \<open>\<^verbatim>\<open>@property
  def __wrapped__(self): return self._self_target\<close>\<close>

definition WrapperBase_wrapped :: "hgetattr \<Rightarrow> heap \<Rightarrow> addr \<Rightarrow> error + val" where
  "WrapperBase_wrapped ga h self = ga h (VRef self) ''_self_target''"

text \<open>
  \<^verbatim>\<open>def __init__(self, wrapped, wrapper, adapter=None, params={})\<close>. The three
  plain assignments and the assignment of \<^verbatim>\<open>_self_target\<close> go through the class's
  own \<^verbatim>\<open>__setattr__\<close>; the two snapshots use \<^verbatim>\<open>object.__setattr__\<close> and each
  sits in its own \<^verbatim>\<open>try ... except AttributeError: pass\<close>.
\<close>

definition WrapperBase_init ::
  "hgetattr \<Rightarrow> hsetattr \<Rightarrow> heap \<Rightarrow> addr \<Rightarrow> val \<Rightarrow> val \<Rightarrow> val \<Rightarrow> val \<Rightarrow> error + heap" where
  "WrapperBase_init ga sa h self wrapped wrapper adapter params =
     ebind (WrapperBase_setattr ga sa h self ''_self_wrapped'' wrapped) (\<lambda>h1.
     ebind (WrapperBase_setattr ga sa h1 self ''_self_wrapper'' wrapper) (\<lambda>h2.
     ebind (WrapperBase_setattr ga sa h2 self ''_self_params'' params) (\<lambda>h3.
     ebind (if adapter = VNone
            then try_AttributeError
                   (ebind (ga h3 wrapped ''__wrapped__'')
                      (\<lambda>t. WrapperBase_setattr ga sa h3 self ''_self_target'' t))
                   (WrapperBase_setattr ga sa h3 self ''_self_target'' wrapped)
            else WrapperBase_setattr ga sa h3 self ''_self_target'' adapter) (\<lambda>h4.
     ebind (try_AttributeError
              (ebind (ga h4 wrapped ''__qualname__'')
                 (\<lambda>q. object_setattr h4 self ''__qualname__'' q))
              (Inr h4)) (\<lambda>h5.
     try_AttributeError
       (ebind (ga h5 wrapped ''__name__'')
          (\<lambda>n. object_setattr h5 self ''__name__'' n))
       (Inr h5))))))"

text \<open>
  \<^verbatim>\<open>def __eq__(self, other): return self._self_target == other\<close> and
  \<^verbatim>\<open>def __hash__(self): return hash(self._self_target)\<close>. The host's \<^verbatim>\<open>==\<close> and
  \<^verbatim>\<open>hash\<close> on the anchor are parameters.
\<close>

definition WrapperBase_eq ::
  "hgetattr \<Rightarrow> (heap \<Rightarrow> val \<Rightarrow> val \<Rightarrow> error + val) \<Rightarrow> heap \<Rightarrow> addr \<Rightarrow> val \<Rightarrow> error + val" where
  "WrapperBase_eq ga eq h self other =
     ebind (ga h (VRef self) ''_self_target'') (\<lambda>t. eq h t other)"

definition WrapperBase_hash ::
  "hgetattr \<Rightarrow> (heap \<Rightarrow> val \<Rightarrow> error + int) \<Rightarrow> heap \<Rightarrow> addr \<Rightarrow> error + int" where
  "WrapperBase_hash ga hsh h self =
     ebind (ga h (VRef self) ''_self_target'') (\<lambda>t. hsh h t)"

text \<open>Truth value of a result, as \<^verbatim>\<open>not result\<close> reads it.\<close>

fun py_truth :: "val \<Rightarrow> bool" where
  "py_truth VNone = False"
| "py_truth (VBool b) = b"
| "py_truth (VInt i) = (i \<noteq> 0)"
| "py_truth (VStr s) = (s \<noteq> [])"
| "py_truth (VTuple xs) = (xs \<noteq> [])"
| "py_truth (VDict kvs) = (kvs \<noteq> [])"
| "py_truth v = True"

text \<open>
  \<^verbatim>\<open>def __ne__(self, other):
      result = self.__eq__(other)
      if result is NotImplemented: return result
      return not result\<close>
  The call \<^verbatim>\<open>self.__eq__(other)\<close> is dispatched on the object: \<open>self_eq\<close> is the
  bound \<^verbatim>\<open>__eq__\<close> of \<^verbatim>\<open>self\<close>, which for the classes of this module is
  \<open>WrapperBase_eq\<close> at \<^verbatim>\<open>self\<close>.
\<close>

definition WrapperBase_ne :: "(val \<Rightarrow> error + val) \<Rightarrow> val \<Rightarrow> error + val" where
  "WrapperBase_ne self_eq other =
     ebind (self_eq other) (\<lambda>result.
       if result = VNotImplemented then Inr result
       else Inr (VBool (\<not> py_truth result)))"

section \<open>The host's attribute lookup\<close>

definition WrapperBase_methods :: "string list" where
  "WrapperBase_methods =
     [''__init__'', ''__setattr__'', ''__getattr__'', ''__self__'', ''__dir__'',
      ''__eq__'', ''__ne__'', ''__hash__'', ''__repr__'', ''__enter__'', ''__exit__'',
      ''__iter__'']"

fun class_methods :: "pyclass \<Rightarrow> string list" where
  "class_methods BoundGenericWrapper = ''__call__'' # WrapperBase_methods"
| "class_methods GenericWrapper = ''__get__'' # ''__call__'' # WrapperBase_methods"
| "class_methods FunctionWrapper = ''__call__'' # WrapperBase_methods"
| "class_methods BoundMethodWrapper = ''__call__'' # WrapperBase_methods"
| "class_methods MethodWrapper = ''__get__'' # WrapperBase_methods"
| "class_methods c = []"

fun WRAPPER_ARGLIST :: "pyclass \<Rightarrow> val option" where
  "WRAPPER_ARGLIST GenericWrapper =
     Some (VTuple [VStr ''wrapped'', VStr ''instance'', VStr ''args'', VStr ''kwargs''])"
| "WRAPPER_ARGLIST FunctionWrapper =
     Some (VTuple [VStr ''wrapped'', VStr ''args'', VStr ''kwargs''])"
| "WRAPPER_ARGLIST MethodWrapper =
     Some (VTuple [VStr ''wrapped'', VStr ''instance'', VStr ''args'', VStr ''kwargs''])"
| "WRAPPER_ARGLIST c = None"

text \<open>
  The default lookup on a proxy, in the host's order: the properties of the class (data
  descriptors, which win over the instance dictionary), then the instance dictionary,
  then the other attributes of the class (its methods, bound to the proxy, and
  \<^verbatim>\<open>WRAPPER_ARGLIST\<close>). Names that only the host's base class \<^verbatim>\<open>object\<close> defines
  are not listed.
\<close>

definition wrapper_getattribute :: "hgetattr \<Rightarrow> heap \<Rightarrow> addr \<Rightarrow> string \<Rightarrow> error + val" where
  "wrapper_getattribute ga h self name =
     (if name = ''__module__'' then WrapperOverrideMethods_module ga h self
      else if name = ''__doc__'' then WrapperOverrideMethods_doc ga h self
      else if name = ''__class__'' then WrapperBase_class ga h self
      else if name = ''__annotations__'' then WrapperBase_annotations ga h self
      else if name = ''__wrapped__'' then WrapperBase_wrapped ga h self
      else case ob_dict (h self) name of
             Some v \<Rightarrow> Inr v
           | None \<Rightarrow>
               if name = ''WRAPPER_ARGLIST''
               then (case WRAPPER_ARGLIST (ob_type (h self)) of
                       Some t \<Rightarrow> Inr t | None \<Rightarrow> Inl AttributeError)
               else if name \<in> set (class_methods (ob_type (h self)))
               then Inr (VMethod (VClassAttr (ob_type (h self)) name) (VRef self))
               else Inl AttributeError)"

text \<open>The five names that the proxy classes define as properties.\<close>

definition is_property :: "string \<Rightarrow> bool" where
  "is_property name =
     (name \<in> {''__module__'', ''__doc__'', ''__class__'', ''__annotations__'', ''__wrapped__''})"

text \<open>
  \<^verbatim>\<open>getattr(v, name)\<close>. On a proxy the default lookup runs first, and when it raises
  \<^verbatim>\<open>AttributeError\<close> (also from inside a property getter) the host calls the class's
  \<^verbatim>\<open>__getattr__\<close> hook. A bound method forwards unknown names to its function. The
  first argument is the recursion depth the host still allows; at depth 0 the host
  raises \<^verbatim>\<open>RecursionError\<close>.
\<close>

primrec py_getattr :: "nat \<Rightarrow> heap \<Rightarrow> val \<Rightarrow> string \<Rightarrow> error + val" where
  "py_getattr 0 h v name = Inl RecursionError"
| "py_getattr (Suc d) h v name =
     (case v of
        VRef a \<Rightarrow>
          if is_wrapper (ob_type (h a))
          then try_AttributeError (wrapper_getattribute (py_getattr d) h a name)
                 (WrapperBase_getattr (py_getattr d) h a name)
          else object_getattribute h a name
      | VMethod f i \<Rightarrow>
          if name = ''__class__'' then Inr (VClass (Other ''method''))
          else if name = ''__self__'' then Inr i
          else if name = ''__func__'' then Inr f
          else py_getattr d h f name
      | _ \<Rightarrow>
          if name = ''__class__'' then Inr (VClass (py_type h v))
          else Inl AttributeError)"

text \<open>
  \<^verbatim>\<open>setattr(v, name, value)\<close>: a proxy's class overrides \<^verbatim>\<open>__setattr__\<close>, so every
  write to a proxy goes through \<open>WrapperBase_setattr\<close>; values without an instance
  dictionary reject the write.
\<close>

primrec py_setattr :: "nat \<Rightarrow> heap \<Rightarrow> val \<Rightarrow> string \<Rightarrow> val \<Rightarrow> error + heap" where
  "py_setattr 0 h v name value = Inl RecursionError"
| "py_setattr (Suc d) h v name value =
     (case v of
        VRef a \<Rightarrow>
          if is_wrapper (ob_type (h a))
          then WrapperBase_setattr (py_getattr d) (py_setattr d) h a name value
          else object_setattr h a name value
      | _ \<Rightarrow> Inl AttributeError)"

section \<open>Calls through the proxies\<close>

text \<open>
  \<^verbatim>\<open>isinstance(v, classes)\<close> for a tuple of classes: the object's real type first,
  then its \<^verbatim>\<open>__class__\<close> attribute (which a proxy forwards to what it wraps); a
  missing \<^verbatim>\<open>__class__\<close> counts as no.
\<close>

definition py_isinstance :: "hgetattr \<Rightarrow> heap \<Rightarrow> val \<Rightarrow> pyclass list \<Rightarrow> error + bool" where
  "py_isinstance ga h v classes =
     (if py_type h v \<in> set classes then Inr True
      else case ga h v ''__class__'' of
             Inr (VClass c) \<Rightarrow> Inr (c \<in> set classes)
           | Inr _ \<Rightarrow> Inr False
           | Inl AttributeError \<Rightarrow> Inr False
           | Inl e \<Rightarrow> Inl e)"

text \<open>\<^verbatim>\<open>**params\<close> in a call: the value must be a mapping with string keys.\<close>

definition star_star :: "val \<Rightarrow> error + (string \<times> val) list" where
  "star_star params = (case params of VDict kws \<Rightarrow> Inr kws | _ \<Rightarrow> Inl TypeError)"

text \<open>
  \<^verbatim>\<open>BoundGenericWrapper.__init__(self, parent, wrapped, instance, wrapper,
  adapter=None, params={})\<close>
\<close>

definition BoundGenericWrapper_init ::
  "hgetattr \<Rightarrow> hsetattr \<Rightarrow> heap \<Rightarrow> addr \<Rightarrow> val \<Rightarrow> val \<Rightarrow> val \<Rightarrow> val \<Rightarrow> val \<Rightarrow> val
     \<Rightarrow> error + heap" where
  "BoundGenericWrapper_init ga sa h self parent wrapped instance wrapper adapter params =
     ebind (WrapperBase_setattr ga sa h self ''_self_parent'' parent) (\<lambda>h1.
     ebind (WrapperBase_setattr ga sa h1 self ''_self_instance'' instance) (\<lambda>h2.
     WrapperBase_init ga sa h2 self wrapped wrapper adapter params))"

text \<open>
  \<^verbatim>\<open>BoundGenericWrapper.__call__(self, *args, **kwargs)\<close>: when the receiver is
  \<^verbatim>\<open>None\<close> and the parent's wrapped object is not a \<^verbatim>\<open>classmethod\<close> or
  \<^verbatim>\<open>staticmethod\<close>, \<^verbatim>\<open>instance, args = args[0], args[1:]\<close> and
  \<^verbatim>\<open>wrapped = functools.partial(wrapped, instance)\<close>.
\<close>

definition BoundGenericWrapper_call ::
  "hgetattr \<Rightarrow> heap \<Rightarrow> addr \<Rightarrow> val list \<Rightarrow> (string \<times> val) list \<Rightarrow> error + invocation" where
  "BoundGenericWrapper_call ga h self args kwargs =
     ebind (ga h (VRef self) ''_self_wrapped'') (\<lambda>wrapped.
     ebind (ga h (VRef self) ''_self_instance'') (\<lambda>instance.
     ebind (ga h (VRef self) ''_self_instance'') (\<lambda>receiver.
     ebind (if receiver = VNone
            then ebind (ga h (VRef self) ''_self_parent'') (\<lambda>parent.
                 ebind (ga h parent ''_self_wrapped'') (\<lambda>original.
                 ebind (py_isinstance ga h original [Classmethod, Staticmethod]) (\<lambda>declared.
                   if \<not> declared
                   then (case args of
                           [] \<Rightarrow> Inl IndexError
                         | a # rest \<Rightarrow> Inr (VPartial wrapped [a], a, rest))
                   else Inr (wrapped, instance, args))))
            else Inr (wrapped, instance, args)) (\<lambda>(wrapped', instance', args').
     ebind (ga h (VRef self) ''_self_wrapper'') (\<lambda>wrapper.
     ebind (ga h (VRef self) ''_self_params'') (\<lambda>params.
     ebind (star_star params) (\<lambda>kws.
       Inr (Invoke wrapper [wrapped', instance', VTuple args', VDict kwargs] kws))))))))"

text \<open>
  \<^verbatim>\<open>GenericWrapper.__call__\<close>:
  \<^verbatim>\<open>return self._self_wrapper(self._self_wrapped, None, args, kwargs, **self._self_params)\<close>
\<close>

definition GenericWrapper_call ::
  "hgetattr \<Rightarrow> heap \<Rightarrow> addr \<Rightarrow> val list \<Rightarrow> (string \<times> val) list \<Rightarrow> error + invocation" where
  "GenericWrapper_call ga h self args kwargs =
     ebind (ga h (VRef self) ''_self_wrapper'') (\<lambda>wrapper.
     ebind (ga h (VRef self) ''_self_wrapped'') (\<lambda>wrapped.
     ebind (ga h (VRef self) ''_self_params'') (\<lambda>params.
     ebind (star_star params) (\<lambda>kws.
       Inr (Invoke wrapper [wrapped, VNone, VTuple args, VDict kwargs] kws)))))"

text \<open>
  \<^verbatim>\<open>FunctionWrapper.__call__\<close>:
  \<^verbatim>\<open>return self._self_wrapper(self._self_wrapped, args, kwargs, **self._self_params)\<close>
\<close>

definition FunctionWrapper_call ::
  "hgetattr \<Rightarrow> heap \<Rightarrow> addr \<Rightarrow> val list \<Rightarrow> (string \<times> val) list \<Rightarrow> error + invocation" where
  "FunctionWrapper_call ga h self args kwargs =
     ebind (ga h (VRef self) ''_self_wrapper'') (\<lambda>wrapper.
     ebind (ga h (VRef self) ''_self_wrapped'') (\<lambda>wrapped.
     ebind (ga h (VRef self) ''_self_params'') (\<lambda>params.
     ebind (star_star params) (\<lambda>kws.
       Inr (Invoke wrapper [wrapped, VTuple args, VDict kwargs] kws)))))"

text \<open>
  \<^verbatim>\<open>BoundMethodWrapper.__init__(self, wrapped, instance, wrapper, adapter=None,
  params={})\<close> and \<^verbatim>\<open>BoundMethodWrapper.__call__(self, *args, **kwargs)\<close>.
\<close>

definition BoundMethodWrapper_init ::
  "hgetattr \<Rightarrow> hsetattr \<Rightarrow> heap \<Rightarrow> addr \<Rightarrow> val \<Rightarrow> val \<Rightarrow> val \<Rightarrow> val \<Rightarrow> val \<Rightarrow> error + heap" where
  "BoundMethodWrapper_init ga sa h self wrapped instance wrapper adapter params =
     ebind (WrapperBase_setattr ga sa h self ''_self_instance'' instance) (\<lambda>h1.
     WrapperBase_init ga sa h1 self wrapped wrapper adapter params)"

definition BoundMethodWrapper_call ::
  "hgetattr \<Rightarrow> heap \<Rightarrow> addr \<Rightarrow> val list \<Rightarrow> (string \<times> val) list \<Rightarrow> error + invocation" where
  "BoundMethodWrapper_call ga h self args kwargs =
     ebind (ga h (VRef self) ''_self_instance'') (\<lambda>receiver.
       if receiver = VNone
       then (case args of
               [] \<Rightarrow> Inl IndexError
             | instance # rest \<Rightarrow>
                 ebind (ga h (VRef self) ''_self_wrapped'') (\<lambda>w.
                 ebind (ga h (VRef self) ''_self_wrapper'') (\<lambda>wrapper.
                 ebind (ga h (VRef self) ''_self_params'') (\<lambda>params.
                 ebind (star_star params) (\<lambda>kws.
                   Inr (Invoke wrapper
                          [VPartial w [instance], instance, VTuple rest, VDict kwargs] kws))))))
       else ebind (ga h (VRef self) ''_self_wrapper'') (\<lambda>wrapper.
            ebind (ga h (VRef self) ''_self_wrapped'') (\<lambda>wrapped.
            ebind (ga h (VRef self) ''_self_instance'') (\<lambda>instance.
            ebind (ga h (VRef self) ''_self_params'') (\<lambda>params.
            ebind (star_star params) (\<lambda>kws.
              Inr (Invoke wrapper [wrapped, instance, VTuple args, VDict kwargs] kws)))))))"

section \<open>Binding: the descriptor protocol\<close>

text \<open>
  \<^verbatim>\<open>descriptor = self._self_wrapped.__get__(instance, owner)\<close> is the host's binding
  of the wrapped object; it may allocate (a bound method), so it returns the store as
  well. The bound proxy is a new object: \<open>new\<close> is the address the host's allocator
  hands out for it.
\<close>

type_synonym hbind = "heap \<Rightarrow> val \<Rightarrow> val \<Rightarrow> val \<Rightarrow> error + val \<times> heap"

definition blank :: "pyclass \<Rightarrow> pyobj" where
  "blank c = \<lparr>ob_type = c, ob_dict = Map.empty\<rparr>"

definition GenericWrapper_get ::
  "hgetattr \<Rightarrow> hsetattr \<Rightarrow> hbind \<Rightarrow> addr \<Rightarrow> heap \<Rightarrow> addr \<Rightarrow> val \<Rightarrow> val \<Rightarrow> error + val \<times> heap" where
  "GenericWrapper_get ga sa bind new h self instance owner =
     ebind (ga h (VRef self) ''_self_wrapped'') (\<lambda>w.
     ebind (bind h w instance owner) (\<lambda>(descriptor, h1).
     ebind (ga h1 (VRef self) ''_self_wrapper'') (\<lambda>wrapper.
     ebind (ga h1 (VRef self) ''_self_target'') (\<lambda>target.
     ebind (ga h1 (VRef self) ''_self_params'') (\<lambda>params.
     ebind (BoundGenericWrapper_init ga sa (h1(new := blank BoundGenericWrapper)) new
              (VRef self) descriptor instance wrapper target params) (\<lambda>h2.
       Inr (VRef new, h2)))))))"

definition MethodWrapper_get ::
  "hgetattr \<Rightarrow> hsetattr \<Rightarrow> hbind \<Rightarrow> addr \<Rightarrow> heap \<Rightarrow> addr \<Rightarrow> val \<Rightarrow> val \<Rightarrow> error + val \<times> heap" where
  "MethodWrapper_get ga sa bind new h self instance owner =
     ebind (ga h (VRef self) ''_self_wrapped'') (\<lambda>w.
     ebind (bind h w instance owner) (\<lambda>(descriptor, h1).
     ebind (ga h1 (VRef self) ''_self_wrapper'') (\<lambda>wrapper.
     ebind (ga h1 (VRef self) ''_self_target'') (\<lambda>target.
     ebind (ga h1 (VRef self) ''_self_params'') (\<lambda>params.
     ebind (BoundMethodWrapper_init ga sa (h1(new := blank BoundMethodWrapper)) new
              descriptor instance wrapper target params) (\<lambda>h2.
       Inr (VRef new, h2)))))))"

text \<open>
  Instantiating one of the three unbound proxy classes, which inherit
  \<^verbatim>\<open>WrapperBase.__init__\<close>: the host allocates the instance at \<open>new\<close> and runs the
  initialiser on it.
\<close>

definition construct ::
  "pyclass \<Rightarrow> hgetattr \<Rightarrow> hsetattr \<Rightarrow> heap \<Rightarrow> addr \<Rightarrow> val \<Rightarrow> val \<Rightarrow> val \<Rightarrow> val \<Rightarrow> error + heap" where
  "construct c ga sa h new wrapped wrapper adapter params =
     WrapperBase_init ga sa (h(new := blank c)) new wrapped wrapper adapter params"

text \<open>
  Wrapping a value and then wrapping each resulting proxy again, without adapters and
  with empty configuration: the list gives, outermost last, the address and class of
  each proxy and its callback.
\<close>

fun wrap_chain :: "nat \<Rightarrow> heap \<Rightarrow> val \<Rightarrow> (addr \<times> pyclass \<times> val) list \<Rightarrow> error + heap" where
  "wrap_chain d h wrapped [] = Inr h"
| "wrap_chain d h wrapped ((p, c, wrapper) # rest) =
     ebind (construct c (py_getattr d) (py_setattr d) h p wrapped wrapper VNone (VDict []))
       (\<lambda>h'. wrap_chain d h' (VRef p) rest)"

section \<open>Host operations of objects that are not proxies\<close>

text \<open>
  The host's default equality and hash of objects whose class defines neither (plain
  functions among them): identity.
\<close>

definition object_eq :: "heap \<Rightarrow> val \<Rightarrow> val \<Rightarrow> error + val" where
  "object_eq h a b = Inr (VBool (a = b))"

fun object_hash :: "heap \<Rightarrow> val \<Rightarrow> error + int" where
  "object_hash h (VRef a) = Inr (int a)"
| "object_hash h v = Inl TypeError"

text \<open>\<^verbatim>\<open>function.__get__(instance, owner)\<close> of the host (Python 3).\<close>

definition function_get :: hbind where
  "function_get h f instance owner =
     Inr (if instance = VNone then f else VMethod f instance, h)"

section \<open>Scenarios\<close>

text \<open>
  The properties below are stated on small programs: wrap a value and compare
  or hash the proxy; wrap repeatedly, write some attributes, and read the outermost
  proxy's \<^verbatim>\<open>__wrapped__\<close>; bind a proxy and read the \<^verbatim>\<open>__wrapped__\<close> of parent and
  bound proxy. Each is the composition of the module's functions in that order.
\<close>

definition wrap_eq ::
  "nat \<Rightarrow> (heap \<Rightarrow> val \<Rightarrow> val \<Rightarrow> error + val) \<Rightarrow> pyclass \<Rightarrow> heap \<Rightarrow> addr \<Rightarrow> val \<Rightarrow> val \<Rightarrow> val
     \<Rightarrow> error + val" where
  "wrap_eq d eq c h new F wrapper X =
     ebind (construct c (py_getattr d) (py_setattr d) h new F wrapper VNone (VDict []))
       (\<lambda>h'. WrapperBase_eq (py_getattr d) eq h' new X)"

definition wrap_hash ::
  "nat \<Rightarrow> (heap \<Rightarrow> val \<Rightarrow> error + int) \<Rightarrow> pyclass \<Rightarrow> heap \<Rightarrow> addr \<Rightarrow> val \<Rightarrow> val \<Rightarrow> error + int" where
  "wrap_hash d hsh c h new F wrapper =
     ebind (construct c (py_getattr d) (py_setattr d) h new F wrapper VNone (VDict []))
       (\<lambda>h'. WrapperBase_hash (py_getattr d) hsh h' new)"

fun write_all :: "nat \<Rightarrow> heap \<Rightarrow> (val \<times> string \<times> val) list \<Rightarrow> error + heap" where
  "write_all d h [] = Inr h"
| "write_all d h ((x, name, v) # ws) =
     ebind (py_setattr d h x name v) (\<lambda>h'. write_all d h' ws)"

definition chain_anchor ::
  "nat \<Rightarrow> heap \<Rightarrow> val \<Rightarrow> (addr \<times> pyclass \<times> val) list \<Rightarrow> (val \<times> string \<times> val) list \<Rightarrow> addr
     \<Rightarrow> error + val" where
  "chain_anchor d h F chain writes p =
     ebind (wrap_chain d h F chain) (\<lambda>h'.
     ebind (write_all d h' writes) (\<lambda>h''.
       py_getattr d h'' (VRef p) ''__wrapped__''))"

definition anchors_after_get ::
  "nat \<Rightarrow> hbind \<Rightarrow> heap \<Rightarrow> addr \<Rightarrow> addr \<Rightarrow> val \<Rightarrow> val \<Rightarrow> error + val \<times> val" where
  "anchors_after_get d bind h p new instance owner =
     ebind (GenericWrapper_get (py_getattr d) (py_setattr d) bind new h p instance owner)
       (\<lambda>(b, h').
     ebind (py_getattr d h' (VRef p) ''__wrapped__'') (\<lambda>parent_anchor.
     ebind (py_getattr d h' b ''__wrapped__'') (\<lambda>bound_anchor.
       Inr (parent_anchor, bound_anchor))))"

text \<open>The \<^verbatim>\<open>__get__\<close> of a user-defined descriptor that returns a fixed object.\<close>

definition const_get :: "val \<Rightarrow> hbind" where
  "const_get result h w instance owner = Inr (result, h)"

text \<open>An \<^verbatim>\<open>__eq__\<close> override that cannot decide.\<close>

definition undecided_eq :: "val \<Rightarrow> error + val" where
  "undecided_eq other = Inr VNotImplemented"

section \<open>An example store\<close>

text \<open>
  A store for the concrete evaluations below. Objects 0 to 6 are ordinary objects: a
  function \<^verbatim>\<open>f\<close> with annotations, the callback, a \<^verbatim>\<open>classmethod\<close> object around
  \<^verbatim>\<open>f\<close>, a function decorated with \<^verbatim>\<open>functools.wraps(f)\<close> (it carries
  \<^verbatim>\<open>__wrapped__\<close>), a function that carries an attribute named \<^verbatim>\<open>__anotations__\<close>,
  an instance of a class \<^verbatim>\<open>C\<close>, and a descriptor object whose \<^verbatim>\<open>__wrapped__\<close> is
  \<^verbatim>\<open>None\<close>. Objects 10 to 18 are proxies with the fields their initialisers set, with
  configuration \<^verbatim>\<open>{'tag': 1}\<close>: 11 and 13 are what class access on 10 and 12 binds,
  15 is what class access on 16 binds, 18 wraps the descriptor object 6.
\<close>

definition proxy_object :: "pyclass \<Rightarrow> val \<Rightarrow> val \<Rightarrow> val \<Rightarrow> pyobj" where
  "proxy_object c wrapped wrapper target =
     \<lparr>ob_type = c,
      ob_dict = [''_self_wrapped'' \<mapsto> wrapped, ''_self_wrapper'' \<mapsto> wrapper,
                 ''_self_params'' \<mapsto> VDict [(''tag'', VInt 1)], ''_self_target'' \<mapsto> target,
                 ''__name__'' \<mapsto> VStr ''f'']\<rparr>"

definition bound_object :: "val \<Rightarrow> val \<Rightarrow> val \<Rightarrow> val \<Rightarrow> val \<Rightarrow> pyobj" where
  "bound_object parent instance wrapped wrapper target =
     \<lparr>ob_type = BoundGenericWrapper,
      ob_dict = [''_self_parent'' \<mapsto> parent, ''_self_instance'' \<mapsto> instance,
                 ''_self_wrapped'' \<mapsto> wrapped, ''_self_wrapper'' \<mapsto> wrapper,
                 ''_self_params'' \<mapsto> VDict [(''tag'', VInt 1)], ''_self_target'' \<mapsto> target,
                 ''__name__'' \<mapsto> VStr ''f'']\<rparr>"

definition ex_store :: heap where
  "ex_store =
     (\<lambda>a. blank (Other ''object''))
       (0 := \<lparr>ob_type = Function,
               ob_dict = [''__name__'' \<mapsto> VStr ''f'',
                          ''__annotations__'' \<mapsto> VDict [(''x'', VStr ''int'')]]\<rparr>,
        1 := \<lparr>ob_type = Function, ob_dict = [''__name__'' \<mapsto> VStr ''callback'']\<rparr>,
        2 := \<lparr>ob_type = Classmethod, ob_dict = [''__func__'' \<mapsto> VRef 0]\<rparr>,
        3 := \<lparr>ob_type = Function,
               ob_dict = [''__name__'' \<mapsto> VStr ''f'', ''__wrapped__'' \<mapsto> VRef 0]\<rparr>,
        4 := \<lparr>ob_type = Function,
               ob_dict = [''__name__'' \<mapsto> VStr ''f'',
                          ''__annotations__'' \<mapsto> VDict [(''x'', VStr ''int'')],
                          ''__anotations__'' \<mapsto> VStr ''stale'']\<rparr>,
        5 := blank (Other ''C''),
        6 := \<lparr>ob_type = Other ''Descriptor'', ob_dict = [''__wrapped__'' \<mapsto> VNone]\<rparr>,
        10 := proxy_object GenericWrapper (VRef 0) (VRef 1) (VRef 0),
        11 := bound_object (VRef 10) VNone (VRef 0) (VRef 1) (VRef 0),
        12 := proxy_object GenericWrapper (VRef 2) (VRef 1) (VRef 2),
        13 := bound_object (VRef 12) VNone (VMethod (VRef 0) (VClass (Other ''C''))) (VRef 1)
                (VRef 2),
        14 := proxy_object FunctionWrapper (VRef 0) (VRef 1) (VRef 0),
        15 := \<lparr>ob_type = BoundMethodWrapper,
                ob_dict = [''_self_instance'' \<mapsto> VNone, ''_self_wrapped'' \<mapsto> VRef 0,
                           ''_self_wrapper'' \<mapsto> VRef 1,
                           ''_self_params'' \<mapsto> VDict [(''tag'', VInt 1)],
                           ''_self_target'' \<mapsto> VRef 0, ''__name__'' \<mapsto> VStr ''f'']\<rparr>,
        16 := proxy_object MethodWrapper (VRef 0) (VRef 1) (VRef 0),
        17 := proxy_object FunctionWrapper (VRef 4) (VRef 1) (VRef 4),
        18 := \<lparr>ob_type = GenericWrapper,
                ob_dict = [''_self_wrapped'' \<mapsto> VRef 6, ''_self_wrapper'' \<mapsto> VRef 1,
                           ''_self_params'' \<mapsto> VDict [(''tag'', VInt 1)],
                           ''_self_target'' \<mapsto> VNone]\<rparr>)"

section \<open>Chains of proxies\<close>

text \<open>
  \<open>linked h f qs w\<close>: in the store \<open>h\<close> the value \<open>w\<close> is the object \<open>f\<close>
  wrapped by the proxies at the addresses \<open>qs\<close>, outermost first; each of them wraps
  the next and has \<open>f\<close> as its anchor.
\<close>

fun linked :: "heap \<Rightarrow> addr \<Rightarrow> addr list \<Rightarrow> val \<Rightarrow> bool" where
  "linked h f [] w = (w = VRef f)"
| "linked h f (q # qs) w =
     (w = VRef q \<and> is_wrapper (ob_type (h q)) \<and>
      ob_dict (h q) ''_self_target'' = Some (VRef f) \<and>
      (case ob_dict (h q) ''_self_wrapped'' of
         Some w' \<Rightarrow> linked h f qs w'
       | None \<Rightarrow> False))"

section \<open>Basic facts\<close>

lemma ebind_Inl [simp]: "ebind (Inl e) f = Inl e"
  by (simp add: ebind_def)

lemma ebind_Inr [simp]: "ebind (Inr x) f = f x"
  by (simp add: ebind_def)


lemma startswith_not_class: "startswith name ''_self_'' \<Longrightarrow> name \<noteq> ''__class__''"
  by (auto simp: startswith_def)

lemma setattr_reserved:
  "startswith name ''_self_'' \<Longrightarrow>
   WrapperBase_setattr ga sa h self name value =
     Inr (h(self := (h self)\<lparr>ob_dict := (ob_dict (h self))(name \<mapsto> value)\<rparr>))"
  by (auto simp: WrapperBase_setattr_def object_setattr_def startswith_def)

lemma py_getattr_field:
  "is_wrapper (ob_type (h a)) \<Longrightarrow> ob_dict (h a) name = Some v \<Longrightarrow> \<not> is_property name \<Longrightarrow>
   py_getattr (Suc d) h (VRef a) name = Inr v"
  by (simp add: wrapper_getattribute_def try_AttributeError_def is_property_def)

lemma py_getattr_plain:
  "\<not> is_wrapper (ob_type (h a)) \<Longrightarrow> py_getattr (Suc d) h (VRef a) name = object_getattribute h a name"
  by simp

lemma py_getattr_wrapped:
  "is_wrapper (ob_type (h a)) \<Longrightarrow> ob_dict (h a) ''_self_target'' = Some t \<Longrightarrow>
   py_getattr (Suc (Suc d)) h (VRef a) ''__wrapped__'' = Inr t"
  by (simp add: wrapper_getattribute_def try_AttributeError_def WrapperBase_wrapped_def)

lemma try_AttributeError_simps [simp]:
  "try_AttributeError (Inr x) hdl = Inr x"
  "try_AttributeError (Inl AttributeError) hdl = hdl"
  "e \<noteq> AttributeError \<Longrightarrow> try_AttributeError (Inl e) hdl = Inl e"
  by (auto simp: try_AttributeError_def split: error.splits)



lemma init_cases:
  assumes "WrapperBase_init ga sa h self wrapped wrapper adapter params = Inr h'"
  obtains h3 h4 where
    "h3 = h(self := (h self)\<lparr>ob_dict := (ob_dict (h self))
              (''_self_wrapped'' \<mapsto> wrapped, ''_self_wrapper'' \<mapsto> wrapper,
               ''_self_params'' \<mapsto> params)\<rparr>)"
    "\<exists>t. h4 = h3(self := (h3 self)\<lparr>ob_dict := (ob_dict (h3 self))(''_self_target'' \<mapsto> t)\<rparr>) \<and>
       (if adapter \<noteq> VNone then t = adapter
        else ga h3 wrapped ''__wrapped__'' = Inr t \<or>
             (ga h3 wrapped ''__wrapped__'' = Inl AttributeError \<and> t = wrapped))"
    "(\<forall>a. a \<noteq> self \<longrightarrow> h' a = h4 a) \<and> ob_type (h' self) = ob_type (h4 self) \<and>
     (\<forall>n. n \<noteq> ''__qualname__'' \<and> n \<noteq> ''__name__'' \<longrightarrow> ob_dict (h' self) n = ob_dict (h4 self) n)"
proof -
  define h3 where "h3 = h(self := (h self)\<lparr>ob_dict := (ob_dict (h self))
              (''_self_wrapped'' \<mapsto> wrapped, ''_self_wrapper'' \<mapsto> wrapper,
               ''_self_params'' \<mapsto> params)\<rparr>)"
  have three: "ebind (WrapperBase_setattr ga sa h self ''_self_wrapped'' wrapped) (\<lambda>h1.
     ebind (WrapperBase_setattr ga sa h1 self ''_self_wrapper'' wrapper) (\<lambda>h2.
     ebind (WrapperBase_setattr ga sa h2 self ''_self_params'' params) k)) = k h3" for k :: "heap \<Rightarrow> error + heap"
    by (simp add: setattr_reserved startswith_def h3_def)
  obtain h4 where t: "(if adapter = VNone
            then try_AttributeError
                   (ebind (ga h3 wrapped ''__wrapped__'')
                      (\<lambda>t. WrapperBase_setattr ga sa h3 self ''_self_target'' t))
                   (WrapperBase_setattr ga sa h3 self ''_self_target'' wrapped)
            else WrapperBase_setattr ga sa h3 self ''_self_target'' adapter) = Inr h4"
    and s: "ebind (try_AttributeError
              (ebind (ga h4 wrapped ''__qualname__'')
                 (\<lambda>q. object_setattr h4 self ''__qualname__'' q))
              (Inr h4)) (\<lambda>h5.
     try_AttributeError
       (ebind (ga h5 wrapped ''__name__'')
          (\<lambda>n. object_setattr h5 self ''__name__'' n))
       (Inr h5)) = Inr h'"
    using assms unfolding WrapperBase_init_def three
    by (cases "(if adapter = VNone
            then try_AttributeError
                   (ebind (ga h3 wrapped ''__wrapped__'')
                      (\<lambda>t. WrapperBase_setattr ga sa h3 self ''_self_target'' t))
                   (WrapperBase_setattr ga sa h3 self ''_self_target'' wrapped)
            else WrapperBase_setattr ga sa h3 self ''_self_target'' adapter)") auto
  have tt: "\<exists>t. h4 = h3(self := (h3 self)\<lparr>ob_dict := (ob_dict (h3 self))(''_self_target'' \<mapsto> t)\<rparr>) \<and>
       (if adapter \<noteq> VNone then t = adapter
        else ga h3 wrapped ''__wrapped__'' = Inr t \<or>
             (ga h3 wrapped ''__wrapped__'' = Inl AttributeError \<and> t = wrapped))"
    using t
    by (auto simp: setattr_reserved startswith_def try_AttributeError_def ebind_def
             split: if_splits sum.splits error.splits)
  obtain h5 where s1: "try_AttributeError
              (ebind (ga h4 wrapped ''__qualname__'')
                 (\<lambda>q. object_setattr h4 self ''__qualname__'' q))
              (Inr h4) = Inr h5"
    and s2: "try_AttributeError
       (ebind (ga h5 wrapped ''__name__'')
          (\<lambda>n. object_setattr h5 self ''__name__'' n))
       (Inr h5) = Inr h'"
    using s by (auto simp: ebind_def split: sum.splits)
  from s1 have a: "h5 = h4 \<or> (\<exists>q. h5 = h4(self := (h4 self)\<lparr>ob_dict := (ob_dict (h4 self))(''__qualname__'' \<mapsto> q)\<rparr>))"
    by (auto simp: try_AttributeError_def ebind_def object_setattr_def split: sum.splits error.splits)
  from s2 have b: "h' = h5 \<or> (\<exists>q. h' = h5(self := (h5 self)\<lparr>ob_dict := (ob_dict (h5 self))(''__name__'' \<mapsto> q)\<rparr>))"
    by (auto simp: try_AttributeError_def ebind_def object_setattr_def split: sum.splits error.splits)
  from a b have fr: "(\<forall>a. a \<noteq> self \<longrightarrow> h' a = h4 a) \<and> ob_type (h' self) = ob_type (h4 self) \<and>
     (\<forall>n. n \<noteq> ''__qualname__'' \<and> n \<noteq> ''__name__'' \<longrightarrow> ob_dict (h' self) n = ob_dict (h4 self) n)"
    by auto
  show ?thesis using that [OF h3_def tt fr] .
qed

lemma init_summary:
  assumes "WrapperBase_init ga sa h self wrapped wrapper adapter params = Inr h'"
  shows "(\<forall>a. a \<noteq> self \<longrightarrow> h' a = h a) \<and> ob_type (h' self) = ob_type (h self) \<and>
         ob_dict (h' self) ''_self_wrapped'' = Some wrapped \<and>
         ob_dict (h' self) ''_self_wrapper'' = Some wrapper \<and>
         ob_dict (h' self) ''_self_params'' = Some params \<and>
         (\<exists>t. ob_dict (h' self) ''_self_target'' = Some t \<and>
              (if adapter \<noteq> VNone then t = adapter
               else ga (h(self := (h self)\<lparr>ob_dict := (ob_dict (h self))
                          (''_self_wrapped'' \<mapsto> wrapped, ''_self_wrapper'' \<mapsto> wrapper,
                           ''_self_params'' \<mapsto> params)\<rparr>)) wrapped ''__wrapped__'' = Inr t \<or>
                    (ga (h(self := (h self)\<lparr>ob_dict := (ob_dict (h self))
                          (''_self_wrapped'' \<mapsto> wrapped, ''_self_wrapper'' \<mapsto> wrapper,
                           ''_self_params'' \<mapsto> params)\<rparr>)) wrapped ''__wrapped__'' = Inl AttributeError
                     \<and> t = wrapped))) \<and>
         (\<forall>n. n \<notin> {''_self_wrapped'', ''_self_wrapper'', ''_self_params'', ''_self_target'',
                    ''__qualname__'', ''__name__''} \<longrightarrow> ob_dict (h' self) n = ob_dict (h self) n)"
  using assms
proof (rule init_cases)
  fix h3 h4
  assume h3: "h3 = h(self := (h self)\<lparr>ob_dict := (ob_dict (h self))
              (''_self_wrapped'' \<mapsto> wrapped, ''_self_wrapper'' \<mapsto> wrapper,
               ''_self_params'' \<mapsto> params)\<rparr>)"
  assume tt: "\<exists>t. h4 = h3(self := (h3 self)\<lparr>ob_dict := (ob_dict (h3 self))(''_self_target'' \<mapsto> t)\<rparr>) \<and>
       (if adapter \<noteq> VNone then t = adapter
        else ga h3 wrapped ''__wrapped__'' = Inr t \<or>
             (ga h3 wrapped ''__wrapped__'' = Inl AttributeError \<and> t = wrapped))"
  assume fr: "(\<forall>a. a \<noteq> self \<longrightarrow> h' a = h4 a) \<and> ob_type (h' self) = ob_type (h4 self) \<and>
     (\<forall>n. n \<noteq> ''__qualname__'' \<and> n \<noteq> ''__name__'' \<longrightarrow> ob_dict (h' self) n = ob_dict (h4 self) n)"
  from tt obtain t where
    h4: "h4 = h3(self := (h3 self)\<lparr>ob_dict := (ob_dict (h3 self))(''_self_target'' \<mapsto> t)\<rparr>)"
    and t: "if adapter \<noteq> VNone then t = adapter
        else ga h3 wrapped ''__wrapped__'' = Inr t \<or>
             (ga h3 wrapped ''__wrapped__'' = Inl AttributeError \<and> t = wrapped)"
    by (elim exE conjE)
  have d4: "ob_dict (h4 self) = (ob_dict (h self))
              (''_self_wrapped'' \<mapsto> wrapped, ''_self_wrapper'' \<mapsto> wrapper,
               ''_self_params'' \<mapsto> params, ''_self_target'' \<mapsto> t)"
    by (simp add: h4 h3)
  have c1: "\<forall>a. a \<noteq> self \<longrightarrow> h' a = h a" using fr by (simp add: h4 h3)
  have c2: "ob_type (h' self) = ob_type (h self)" using fr by (simp add: h4 h3)
  have c3: "ob_dict (h' self) ''_self_wrapped'' = Some wrapped" using fr by (simp add: d4)
  have c4: "ob_dict (h' self) ''_self_wrapper'' = Some wrapper" using fr by (simp add: d4)
  have c5: "ob_dict (h' self) ''_self_params'' = Some params" using fr by (simp add: d4)
  have c6: "ob_dict (h' self) ''_self_target'' = Some t" using fr by (simp add: d4)
  have c7: "\<forall>n. n \<notin> {''_self_wrapped'', ''_self_wrapper'', ''_self_params'', ''_self_target'',
                    ''__qualname__'', ''__name__''} \<longrightarrow> ob_dict (h' self) n = ob_dict (h self) n"
    using fr by (simp add: d4)
  have c6': "\<exists>t. ob_dict (h' self) ''_self_target'' = Some t \<and>
              (if adapter \<noteq> VNone then t = adapter
               else ga h3 wrapped ''__wrapped__'' = Inr t \<or>
                    (ga h3 wrapped ''__wrapped__'' = Inl AttributeError \<and> t = wrapped))"
    by (rule exI [of _ t]) (use t c6 in simp)
  show ?thesis
    by (intro conjI) (use c1 c2 c3 c4 c5 c6' c7 in \<open>simp_all only: h3\<close>)
qed

lemma py_setattr_forward:
  "py_setattr d h v name value = Inr h' \<Longrightarrow> \<not> startswith name ''_self_'' \<Longrightarrow>
   \<exists>t. \<not> is_wrapper (ob_type (h t)) \<and> (\<forall>a. a \<noteq> t \<longrightarrow> h' a = h a)"
proof (induction d arbitrary: v)
  case 0
  then show ?case by simp
next
  case (Suc d)
  show ?case
  proof (cases v)
    case (VRef a)
    show ?thesis
    proof (cases "is_wrapper (ob_type (h a))")
      case True
      with Suc.prems VRef obtain w where "py_setattr d h w name value = Inr h'"
        by (auto simp: WrapperBase_setattr_def ebind_def split: sum.splits)
      with Suc.IH Suc.prems show ?thesis by blast
    next
      case False
      with Suc.prems VRef have "object_setattr h a name value = Inr h'" by simp
      then have "\<forall>b. b \<noteq> a \<longrightarrow> h' b = h b"
        by (auto simp: object_setattr_def split: if_splits val.splits)
      with False show ?thesis by blast
    qed
  qed (use Suc.prems in auto)
qed

lemma py_setattr_proxy_unchanged:
  assumes "py_setattr d h v name value = Inr h'" "\<not> startswith name ''_self_''"
    "is_wrapper (ob_type (h self))"
  shows "h' self = h self"
  using py_setattr_forward [OF assms(1,2)] assms(3) by metis

lemma object_getattribute_cong:
  "h' a = h a \<Longrightarrow> object_getattribute h' a name = object_getattribute h a name"
  by (simp add: object_getattribute_def)

lemma construct_anchor:
  assumes c: "construct c (py_getattr (Suc (Suc d))) (py_setattr (Suc (Suc d))) h p w wrapper VNone params = Inr h1"
    and plain: "\<not> is_wrapper (ob_type (h f))" "ob_dict (h f) ''__wrapped__'' = None"
    and w: "w = VRef f \<or> (\<exists>q. w = VRef q \<and> q \<noteq> p \<and> is_wrapper (ob_type (h q)) \<and>
                              ob_dict (h q) ''_self_target'' = Some (VRef f))"
    and pf: "p \<noteq> f"
  shows "(\<forall>a. a \<noteq> p \<longrightarrow> h1 a = h a) \<and> ob_type (h1 p) = c \<and>
         ob_dict (h1 p) ''_self_target'' = Some (VRef f)"
proof -
  let ?h0 = "h(p := blank c)"
  let ?h3 = "?h0(p := (?h0 p)\<lparr>ob_dict := (ob_dict (?h0 p))
                          (''_self_wrapped'' \<mapsto> w, ''_self_wrapper'' \<mapsto> wrapper,
                           ''_self_params'' \<mapsto> params)\<rparr>)"
  from c have i: "WrapperBase_init (py_getattr (Suc (Suc d))) (py_setattr (Suc (Suc d))) ?h0 p w wrapper VNone params = Inr h1"
    by (simp add: construct_def)
  note s = init_summary [OF i]
  from s have fr: "\<forall>a. a \<noteq> p \<longrightarrow> h1 a = h a" by simp
  from s have ty: "ob_type (h1 p) = c" by (simp add: blank_def)
  from s obtain t where t: "ob_dict (h1 p) ''_self_target'' = Some t"
    and tc: "py_getattr (Suc (Suc d)) ?h3 w ''__wrapped__'' = Inr t \<or>
             (py_getattr (Suc (Suc d)) ?h3 w ''__wrapped__'' = Inl AttributeError \<and> t = w)"
    by auto
  have "t = VRef f"
  proof -
    from w show ?thesis
    proof
      assume wf: "w = VRef f"
      have "py_getattr (Suc (Suc d)) ?h3 w ''__wrapped__'' = Inl AttributeError"
        using plain pf by (simp add: wf object_getattribute_def)
      with tc wf show ?thesis by simp
    next
      assume "\<exists>q. w = VRef q \<and> q \<noteq> p \<and> is_wrapper (ob_type (h q)) \<and>
                              ob_dict (h q) ''_self_target'' = Some (VRef f)"
      then obtain q where q: "w = VRef q" "q \<noteq> p" "is_wrapper (ob_type (h q))"
        "ob_dict (h q) ''_self_target'' = Some (VRef f)" by blast
      have "py_getattr (Suc (Suc d)) ?h3 (VRef q) ''__wrapped__'' = Inr (VRef f)"
        by (rule py_getattr_wrapped) (use q in simp_all)
      with tc q show ?thesis by simp
    qed
  qed
  with t fr ty show ?thesis by simp
qed

lemma chain_inv:
  assumes "wrap_chain (Suc (Suc d)) h w chain = Inr h'"
    and "\<not> is_wrapper (ob_type (h f))" "ob_dict (h f) ''__wrapped__'' = None"
    and "w = VRef f \<or> (\<exists>q. w = VRef q \<and> q \<notin> fst ` set chain \<and> is_wrapper (ob_type (h q)) \<and>
                              ob_dict (h q) ''_self_target'' = Some (VRef f))"
    and "\<forall>(p, c, cb) \<in> set chain. is_wrapper c \<and> p \<noteq> f"
    and "distinct (map fst chain)"
  shows "(\<forall>a. a \<notin> fst ` set chain \<longrightarrow> h' a = h a) \<and>
         (\<forall>p \<in> fst ` set chain. is_wrapper (ob_type (h' p)) \<and>
                ob_dict (h' p) ''_self_target'' = Some (VRef f))"
  using assms
proof (induction chain arbitrary: h w)
  case Nil
  then show ?case by simp
next
  case (Cons x rest)
  obtain p c cb where x: "x = (p, c, cb)" by (cases x) auto
  from Cons.prems(1) x obtain h1 where
    c1: "construct c (py_getattr (Suc (Suc d))) (py_setattr (Suc (Suc d))) h p w cb VNone (VDict []) = Inr h1"
    and r: "wrap_chain (Suc (Suc d)) h1 (VRef p) rest = Inr h'"
    by (auto simp: ebind_def split: sum.splits)
  from Cons.prems(5) x have pf: "p \<noteq> f" and pc: "is_wrapper c" by auto
  from Cons.prems(6) x have pr: "p \<notin> fst ` set rest" and dr: "distinct (map fst rest)" by auto
  have w': "w = VRef f \<or> (\<exists>q. w = VRef q \<and> q \<noteq> p \<and> is_wrapper (ob_type (h q)) \<and>
                              ob_dict (h q) ''_self_target'' = Some (VRef f))"
    using Cons.prems(4) x by auto
  from construct_anchor [OF c1 Cons.prems(2,3) w' pf]
  have fr1: "\<forall>a. a \<noteq> p \<longrightarrow> h1 a = h a" and ty1: "ob_type (h1 p) = c"
    and an1: "ob_dict (h1 p) ''_self_target'' = Some (VRef f)" by auto
  have plain1: "\<not> is_wrapper (ob_type (h1 f))" "ob_dict (h1 f) ''__wrapped__'' = None"
    using fr1 pf Cons.prems(2,3) by auto
  have w1: "VRef p = VRef f \<or> (\<exists>q. VRef p = VRef q \<and> q \<notin> fst ` set rest \<and> is_wrapper (ob_type (h1 q)) \<and>
                              ob_dict (h1 q) ''_self_target'' = Some (VRef f))"
    using pr ty1 pc an1 by auto
  have all1: "\<forall>(p, c, cb) \<in> set rest. is_wrapper c \<and> p \<noteq> f"
    using Cons.prems(5) by auto
  from Cons.IH [OF r plain1 w1 all1 dr]
  have ih1: "\<forall>a. a \<notin> fst ` set rest \<longrightarrow> h' a = h1 a"
    and ih2: "\<forall>p \<in> fst ` set rest. is_wrapper (ob_type (h' p)) \<and>
                ob_dict (h' p) ''_self_target'' = Some (VRef f)" by auto
  have a: "\<forall>a. a \<notin> fst ` set (x # rest) \<longrightarrow> h' a = h a"
    using ih1 fr1 x by auto
  have "h' p = h1 p" using ih1 pr by simp
  then have b: "is_wrapper (ob_type (h' p)) \<and> ob_dict (h' p) ''_self_target'' = Some (VRef f)"
    using ty1 pc an1 by simp
  show ?case using a b ih2 x by auto
qed

lemma construct_plain:
  assumes "\<not> is_wrapper (ob_type (h f))" "ob_dict (h f) ''__wrapped__'' = None" "new \<noteq> f"
  shows "\<exists>h'. construct c (py_getattr (Suc d)) (py_setattr (Suc d)) h new (VRef f) wrapper VNone params = Inr h'"
  using assms
  by (auto simp: construct_def WrapperBase_init_def setattr_reserved startswith_def
        object_getattribute_def object_setattr_def split: option.splits)

lemma bound_generic_init_adapter:
  assumes "BoundGenericWrapper_init ga sa h self parent wrapped instance wrapper adapter params = Inr h'"
    and "adapter \<noteq> VNone"
  shows "(\<forall>a. a \<noteq> self \<longrightarrow> h' a = h a) \<and> ob_type (h' self) = ob_type (h self) \<and>
         ob_dict (h' self) ''_self_target'' = Some adapter"
proof -
  let ?h2 = "h(self := (h self)\<lparr>ob_dict := (ob_dict (h self))
               (''_self_parent'' \<mapsto> parent, ''_self_instance'' \<mapsto> instance)\<rparr>)"
  from assms(1) have i: "WrapperBase_init ga sa ?h2 self wrapped wrapper adapter params = Inr h'"
    by (simp add: BoundGenericWrapper_init_def setattr_reserved startswith_def)
  from init_summary [OF i] assms(2) show ?thesis by simp
qed

lemma bound_method_init_adapter:
  assumes "BoundMethodWrapper_init ga sa h self wrapped instance wrapper adapter params = Inr h'"
    and "adapter \<noteq> VNone"
  shows "(\<forall>a. a \<noteq> self \<longrightarrow> h' a = h a) \<and> ob_type (h' self) = ob_type (h self) \<and>
         ob_dict (h' self) ''_self_target'' = Some adapter"
proof -
  let ?h1 = "h(self := (h self)\<lparr>ob_dict := (ob_dict (h self))(''_self_instance'' \<mapsto> instance)\<rparr>)"
  from assms(1) have i: "WrapperBase_init ga sa ?h1 self wrapped wrapper adapter params = Inr h'"
    by (simp add: BoundMethodWrapper_init_def setattr_reserved startswith_def)
  from init_summary [OF i] assms(2) show ?thesis by simp
qed

lemma generic_get_anchor:
  assumes g: "GenericWrapper_get (py_getattr (Suc (Suc d))) (py_setattr (Suc (Suc d))) bind new h
                self instance owner = Inr (b, h2)"
    and w: "py_getattr (Suc (Suc d)) h (VRef self) ''_self_wrapped'' = Inr w"
    and bd: "bind h w instance owner = Inr (descriptor, h1)"
    and p: "is_wrapper (ob_type (h1 self))" "ob_dict (h1 self) ''_self_target'' = Some T"
    and n: "T \<noteq> VNone" "new \<noteq> self"
  shows "b = VRef new \<and> h2 self = h1 self \<and> is_wrapper (ob_type (h2 new)) \<and>
         ob_dict (h2 new) ''_self_target'' = Some T"
proof -
  have t: "py_getattr (Suc (Suc d)) h1 (VRef self) ''_self_target'' = Inr T"
    by (rule py_getattr_field) (use p in \<open>simp_all add: is_property_def\<close>)
  from g w bd t obtain wrapper params where
    i: "BoundGenericWrapper_init (py_getattr (Suc (Suc d))) (py_setattr (Suc (Suc d)))
          (h1(new := blank BoundGenericWrapper)) new (VRef self) descriptor instance wrapper T
          params = Inr h2" and b: "b = VRef new"
    unfolding GenericWrapper_get_def
    by (auto simp: ebind_def split: sum.splits)
  from bound_generic_init_adapter [OF i n(1)] n(2) b show ?thesis
    by (simp add: blank_def is_wrapper_def)
qed

lemma method_get_anchor:
  assumes g: "MethodWrapper_get (py_getattr (Suc (Suc d))) (py_setattr (Suc (Suc d))) bind new h
                self instance owner = Inr (b, h2)"
    and w: "py_getattr (Suc (Suc d)) h (VRef self) ''_self_wrapped'' = Inr w"
    and bd: "bind h w instance owner = Inr (descriptor, h1)"
    and p: "is_wrapper (ob_type (h1 self))" "ob_dict (h1 self) ''_self_target'' = Some T"
    and n: "T \<noteq> VNone" "new \<noteq> self"
  shows "b = VRef new \<and> h2 self = h1 self \<and> is_wrapper (ob_type (h2 new)) \<and>
         ob_dict (h2 new) ''_self_target'' = Some T"
proof -
  have t: "py_getattr (Suc (Suc d)) h1 (VRef self) ''_self_target'' = Inr T"
    by (rule py_getattr_field) (use p in \<open>simp_all add: is_property_def\<close>)
  from g w bd t obtain wrapper params where
    i: "BoundMethodWrapper_init (py_getattr (Suc (Suc d))) (py_setattr (Suc (Suc d)))
          (h1(new := blank BoundMethodWrapper)) new descriptor instance wrapper T
          params = Inr h2" and b: "b = VRef new"
    unfolding MethodWrapper_get_def
    by (auto simp: ebind_def split: sum.splits)
  from bound_method_init_adapter [OF i n(1)] n(2) b show ?thesis
    by (simp add: blank_def is_wrapper_def)
qed

text \<open>
  Building a chain never fails for want of anything but depth: on a linked chain of
  \<open>n\<close> proxies every read the initialiser makes returns or raises
  \<^verbatim>\<open>AttributeError\<close> as soon as the depth exceeds \<open>n\<close>.
\<close>

lemma snapshot_not_method:
  "name = ''__qualname__'' \<or> name = ''__name__'' \<Longrightarrow> name \<notin> set (class_methods c)"
  by (cases c) (auto simp: WrapperBase_methods_def)

lemma snapshot_plain_lookup:
  assumes "name = ''__qualname__'' \<or> name = ''__name__''" and "ob_dict (h q) name = None"
  shows "wrapper_getattribute ga h q name = Inl AttributeError"
  using assms snapshot_not_method [OF assms(1), of "ob_type (h q)"]
  by (auto simp: wrapper_getattribute_def)

lemma linked_frame:
  "\<forall>a \<in> set qs. h1 a = h a \<Longrightarrow> linked h1 f qs w = linked h f qs w"
  by (induction qs arbitrary: w) (auto split: option.splits)

lemma linked_read:
  assumes "linked h f qs w" and "\<not> is_wrapper (ob_type (h f))" and "length qs < D"
    and "name = ''__qualname__'' \<or> name = ''__name__''"
  shows "(\<exists>v. py_getattr D h w name = Inr v) \<or> py_getattr D h w name = Inl AttributeError"
  using assms(1,3)
proof (induction qs arbitrary: w D)
  case Nil
  then obtain D' where D: "D = Suc D'" by (cases D) auto
  from Nil have w: "w = VRef f" by simp
  show ?case using assms(2,4) unfolding D w
    by (auto simp: object_getattribute_def split: option.splits)
next
  case (Cons q qs)
  from Cons.prems(2) obtain D' where D: "D = Suc D'" and D': "length qs < D'" by (cases D) auto
  from Cons.prems(1) obtain w' where w: "w = VRef q" and wr: "is_wrapper (ob_type (h q))"
    and sw: "ob_dict (h q) ''_self_wrapped'' = Some w'" and l: "linked h f qs w'"
    by (auto split: option.splits)
  note ih = Cons.IH [OF l D']
  from D' obtain D'' where D'': "D' = Suc D''" by (cases D') auto
  have g: "py_getattr D' h (VRef q) ''_self_wrapped'' = Inr w'"
    unfolding D'' by (rule py_getattr_field) (use wr sw in \<open>simp_all add: is_property_def\<close>)
  have fb: "WrapperBase_getattr (py_getattr D') h q name = py_getattr D' h w' name"
    using g by (simp add: WrapperBase_getattr_def)
  show ?case
  proof (cases "ob_dict (h q) name")
    case None
    have a: "wrapper_getattribute (py_getattr D') h q name = Inl AttributeError"
      using assms(4) None by (rule snapshot_plain_lookup)
    have "py_getattr (Suc D') h (VRef q) name = py_getattr D' h w' name"
      by (simp only: py_getattr.simps val.case wr if_True a try_AttributeError_simps fb)
    with ih show ?thesis unfolding D w by simp
  next
    case (Some v)
    have "py_getattr D h w name = Inr v"
      unfolding D w by (rule py_getattr_field) (use wr Some assms(4) in \<open>auto simp: is_property_def\<close>)
    then show ?thesis by simp
  qed
qed

lemma linked_wrapped:
  assumes "linked h f qs w" and "\<not> is_wrapper (ob_type (h f))"
    and "ob_dict (h f) ''__wrapped__'' = None" and "length qs < D"
  shows "py_getattr D h w ''__wrapped__'' = (if qs = [] then Inl AttributeError else Inr (VRef f))"
proof (cases qs)
  case Nil
  with assms(4) obtain D' where D: "D = Suc D'" by (cases D) auto
  from Nil assms(1) have "w = VRef f" by simp
  then show ?thesis using assms(2,3) Nil unfolding D by (simp add: object_getattribute_def)
next
  case (Cons q qs')
  with assms(4) obtain D1 where D1: "D = Suc D1" "length qs' < D1" by (cases D) auto
  then obtain D' where D: "D = Suc (Suc D')" by (cases D1) auto
  from Cons assms(1) have w: "w = VRef q" and wr: "is_wrapper (ob_type (h q))"
    and t: "ob_dict (h q) ''_self_target'' = Some (VRef f)" by auto
  have "py_getattr (Suc (Suc D')) h (VRef q) ''__wrapped__'' = Inr (VRef f)"
    using wr t by (rule py_getattr_wrapped)
  then show ?thesis using Cons by (simp add: D w)
qed

lemma snapshot_step:
  assumes "(\<exists>v. py_getattr D g wrapped name = Inr v) \<or>
           py_getattr D g wrapped name = Inl AttributeError"
    and "name \<noteq> ''__class__''"
  shows "\<exists>g'. try_AttributeError
                 (ebind (py_getattr D g wrapped name) (\<lambda>q. object_setattr g self name q))
                 (Inr g) = Inr g' \<and> (\<forall>a. a \<noteq> self \<longrightarrow> g' a = g a)"
  using assms by (auto simp: object_setattr_def)

lemma construct_total:
  assumes l: "linked h f qs w" and plain: "\<not> is_wrapper (ob_type (h f))"
    "ob_dict (h f) ''__wrapped__'' = None"
    and fresh: "p \<notin> set qs" "p \<noteq> f" and depth: "length qs < D"
  shows "\<exists>h1. construct c (py_getattr D) (py_setattr D) h p w wrapper VNone params = Inr h1"
proof -
  have ok: "linked g f qs w \<and> \<not> is_wrapper (ob_type (g f)) \<and> ob_dict (g f) ''__wrapped__'' = None"
    if "\<forall>a. a \<noteq> p \<longrightarrow> g a = h a" for g
  proof -
    from that fresh have "\<forall>a \<in> set qs. g a = h a" "g f = h f" by auto
    with l plain linked_frame [of qs g h f w] show ?thesis by simp
  qed
  define h0 where "h0 = h(p := blank c)"
  define h3 where "h3 = h0(p := (h0 p)\<lparr>ob_dict := (ob_dict (h0 p))
              (''_self_wrapped'' \<mapsto> w, ''_self_wrapper'' \<mapsto> wrapper,
               ''_self_params'' \<mapsto> params)\<rparr>)"
  have a3: "\<forall>a. a \<noteq> p \<longrightarrow> h3 a = h a" by (simp add: h3_def h0_def)
  have three: "ebind (WrapperBase_setattr (py_getattr D) (py_setattr D) h0 p ''_self_wrapped'' w) (\<lambda>h1.
     ebind (WrapperBase_setattr (py_getattr D) (py_setattr D) h1 p ''_self_wrapper'' wrapper) (\<lambda>h2.
     ebind (WrapperBase_setattr (py_getattr D) (py_setattr D) h2 p ''_self_params'' params) k)) = k h3"
    for k :: "heap \<Rightarrow> error + heap"
    by (simp add: setattr_reserved startswith_def h3_def)
  from ok [OF a3] depth
  have r: "py_getattr D h3 w ''__wrapped__'' =
             (if qs = [] then Inl AttributeError else Inr (VRef f))"
    by (intro linked_wrapped) simp_all
  obtain h4 where t: "try_AttributeError
                   (ebind (py_getattr D h3 w ''__wrapped__'')
                      (\<lambda>t. WrapperBase_setattr (py_getattr D) (py_setattr D) h3 p ''_self_target'' t))
                   (WrapperBase_setattr (py_getattr D) (py_setattr D) h3 p ''_self_target'' w) = Inr h4"
    and a4: "\<forall>a. a \<noteq> p \<longrightarrow> h4 a = h a"
  proof (cases "qs = []")
    case True
    show ?thesis
      by (rule that [of "h3(p := (h3 p)\<lparr>ob_dict := (ob_dict (h3 p))(''_self_target'' \<mapsto> w)\<rparr>)"])
         (use a3 in \<open>simp_all add: r True setattr_reserved startswith_def\<close>)
  next
    case False
    show ?thesis
      by (rule that [of "h3(p := (h3 p)\<lparr>ob_dict := (ob_dict (h3 p))(''_self_target'' \<mapsto> VRef f)\<rparr>)"])
         (use a3 in \<open>simp_all add: r False setattr_reserved startswith_def\<close>)
  qed
  from ok [OF a4] depth
  have "(\<exists>v. py_getattr D h4 w ''__qualname__'' = Inr v) \<or>
        py_getattr D h4 w ''__qualname__'' = Inl AttributeError"
    by (intro linked_read [where f = f and qs = qs]) simp_all
  from snapshot_step [OF this, of p] a4 obtain h5 where
    q: "try_AttributeError (ebind (py_getattr D h4 w ''__qualname__'')
          (\<lambda>q. object_setattr h4 p ''__qualname__'' q)) (Inr h4) = Inr h5"
    and a5: "\<forall>a. a \<noteq> p \<longrightarrow> h5 a = h a"
    by auto
  from ok [OF a5] depth
  have "(\<exists>v. py_getattr D h5 w ''__name__'' = Inr v) \<or>
        py_getattr D h5 w ''__name__'' = Inl AttributeError"
    by (intro linked_read [where f = f and qs = qs]) simp_all
  from snapshot_step [OF this, of p] obtain h6 where
    n: "try_AttributeError (ebind (py_getattr D h5 w ''__name__'')
          (\<lambda>n. object_setattr h5 p ''__name__'' n)) (Inr h5) = Inr h6"
    by auto
  have "construct c (py_getattr D) (py_setattr D) h p w wrapper VNone params = Inr h6"
    unfolding construct_def WrapperBase_init_def h0_def [symmetric] three
    by (simp add: t q n)
  then show ?thesis by blast
qed

lemma linked_frame_rule:
  "linked h f qs w \<Longrightarrow> \<forall>a \<in> set qs. h1 a = h a \<Longrightarrow> linked h1 f qs w"
  using linked_frame [of qs h1 h f w] by simp

lemma construct_linked:
  assumes c: "construct c (py_getattr D) (py_setattr D) h p w wrapper VNone params = Inr h1"
    and l: "linked h f qs w" and plain: "\<not> is_wrapper (ob_type (h f))"
    "ob_dict (h f) ''__wrapped__'' = None"
    and fresh: "p \<notin> set qs" "p \<noteq> f" and depth: "length qs < D" and cls: "is_wrapper c"
  shows "linked h1 f (p # qs) (VRef p) \<and> (\<forall>a. a \<noteq> p \<longrightarrow> h1 a = h a)"
proof -
  let ?h0 = "h(p := blank c)"
  let ?h3 = "?h0(p := (?h0 p)\<lparr>ob_dict := (ob_dict (?h0 p))
                          (''_self_wrapped'' \<mapsto> w, ''_self_wrapper'' \<mapsto> wrapper,
                           ''_self_params'' \<mapsto> params)\<rparr>)"
  from c have i: "WrapperBase_init (py_getattr D) (py_setattr D) ?h0 p w wrapper VNone params = Inr h1"
    by (simp add: construct_def)
  note s = init_summary [OF i]
  from s have fr: "\<forall>a. a \<noteq> p \<longrightarrow> h1 a = h a" by simp
  from s have ty: "ob_type (h1 p) = c" by (simp add: blank_def)
  from s have sw: "ob_dict (h1 p) ''_self_wrapped'' = Some w" by simp
  from s obtain t where t: "ob_dict (h1 p) ''_self_target'' = Some t"
    and tc: "py_getattr D ?h3 w ''__wrapped__'' = Inr t \<or>
             (py_getattr D ?h3 w ''__wrapped__'' = Inl AttributeError \<and> t = w)"
    by auto
  have l3: "linked ?h3 f qs w" by (rule linked_frame_rule [OF l]) (use fresh in auto)
  have r: "py_getattr D ?h3 w ''__wrapped__'' =
             (if qs = [] then Inl AttributeError else Inr (VRef f))"
    by (rule linked_wrapped [OF l3]) (use plain fresh depth in simp_all)
  have tf: "t = VRef f"
  proof (cases "qs = []")
    case True
    with l have "w = VRef f" by simp
    with tc r True show ?thesis by simp
  next
    case False
    with tc r show ?thesis by simp
  qed
  have l1: "linked h1 f qs w" by (rule linked_frame_rule [OF l]) (use fresh fr in auto)
  from l1 ty cls sw t tf fr show ?thesis by simp
qed

lemma chain_total:
  assumes "linked h f qs w" and "\<not> is_wrapper (ob_type (h f))"
    and "ob_dict (h f) ''__wrapped__'' = None"
    and "\<forall>(p, c, cb) \<in> set chain. is_wrapper c \<and> p \<noteq> f \<and> p \<notin> set qs"
    and "distinct (map fst chain)" and "length qs + length chain \<le> D"
  shows "\<exists>h'. wrap_chain D h w chain = Inr h'"
  using assms
proof (induction chain arbitrary: h w qs)
  case Nil
  then show ?case by simp
next
  case (Cons x rest)
  obtain p c cb where x: "x = (p, c, cb)" by (cases x) auto
  from Cons.prems(4) x have pc: "is_wrapper c" and pf: "p \<noteq> f" and pq: "p \<notin> set qs" by auto
  from Cons.prems(6) have dq: "length qs < D" by simp
  from construct_total [OF Cons.prems(1,2,3) pq pf dq]
  obtain h1 where c1: "construct c (py_getattr D) (py_setattr D) h p w cb VNone (VDict []) = Inr h1"
    by blast
  from construct_linked [OF c1 Cons.prems(1,2,3) pq pf dq pc]
  have l1: "linked h1 f (p # qs) (VRef p)" and fr: "\<forall>a. a \<noteq> p \<longrightarrow> h1 a = h a" by auto
  have plain1: "\<not> is_wrapper (ob_type (h1 f))" "ob_dict (h1 f) ''__wrapped__'' = None"
    using fr pf Cons.prems(2,3) by auto
  have all1: "\<forall>(p', c, cb) \<in> set rest. is_wrapper c \<and> p' \<noteq> f \<and> p' \<notin> set (p # qs)"
    using Cons.prems(4,5) x by force
  have dr: "distinct (map fst rest)" using Cons.prems(5) by simp
  have len: "length (p # qs) + length rest \<le> D" using Cons.prems(6) by simp
  from Cons.IH [OF l1 plain1 all1 dr len] obtain h' where
    "wrap_chain D h1 (VRef p) rest = Inr h'" by blast
  with c1 x show ?case by simp
qed

text \<open>
  The annotation field: a write through the proxy stores the mapping on the wrapped
  object, by attribute assignment and by the property setter alike. A read on a proxy
  whose wrapped object has no attribute spelt \<^verbatim>\<open>__anotations__\<close> makes the property
  getter raise \<^verbatim>\<open>AttributeError\<close>, and the host then answers through
  \<^verbatim>\<open>__getattr__\<close> with the wrapped object's \<^verbatim>\<open>__annotations__\<close>.
\<close>

lemma annotations_write_through:
  assumes "is_wrapper (ob_type (h p))" and "ob_dict (h p) ''_self_wrapped'' = Some (VRef t)"
    and "\<not> is_wrapper (ob_type (h t))"
  shows "py_setattr (Suc (Suc d)) h (VRef p) ''__annotations__'' v =
           Inr (h(t := (h t)\<lparr>ob_dict := (ob_dict (h t))(''__annotations__'' \<mapsto> v)\<rparr>))
       \<and> WrapperBase_annotations_setter (py_getattr (Suc d)) (py_setattr (Suc d)) h p v =
           Inr (h(t := (h t)\<lparr>ob_dict := (ob_dict (h t))(''__annotations__'' \<mapsto> v)\<rparr>))"
proof -
  have g: "py_getattr (Suc d) h (VRef p) ''_self_wrapped'' = Inr (VRef t)"
    by (rule py_getattr_field) (use assms in \<open>simp_all add: is_property_def\<close>)
  show ?thesis
    using assms g
    by (simp add: WrapperBase_setattr_def WrapperBase_annotations_setter_def startswith_def
          object_setattr_def)
qed

lemma annotations_read_fallback:
  assumes "is_wrapper (ob_type (h p))" and "ob_dict (h p) ''_self_wrapped'' = Some (VRef t)"
    and "\<not> is_wrapper (ob_type (h t))" and "ob_dict (h t) ''__anotations__'' = None"
  shows "WrapperBase_annotations (py_getattr (Suc d)) h p = Inl AttributeError
       \<and> py_getattr (Suc (Suc d)) h (VRef p) ''__annotations__'' =
           py_getattr (Suc d) h (VRef t) ''__annotations__''"
proof -
  have g: "py_getattr (Suc d) h (VRef p) ''_self_wrapped'' = Inr (VRef t)"
    by (rule py_getattr_field) (use assms in \<open>simp_all add: is_property_def\<close>)
  have a: "WrapperBase_annotations (py_getattr (Suc d)) h p = Inl AttributeError"
    using assms g by (simp add: WrapperBase_annotations_def object_getattribute_def)
  have b: "WrapperBase_getattr (py_getattr (Suc d)) h p ''__annotations__'' =
           py_getattr (Suc d) h (VRef t) ''__annotations__''"
    using g by (simp add: WrapperBase_getattr_def)
  show ?thesis
    using assms(1) a b by (simp add: wrapper_getattribute_def)
qed

lemma ex_objects:
  "ex_store 0 = \<lparr>ob_type = Function,
               ob_dict = [''__name__'' \<mapsto> VStr ''f'',
                          ''__annotations__'' \<mapsto> VDict [(''x'', VStr ''int'')]]\<rparr>"
  "ex_store 1 = \<lparr>ob_type = Function, ob_dict = [''__name__'' \<mapsto> VStr ''callback'']\<rparr>"
  "ex_store 2 = \<lparr>ob_type = Classmethod, ob_dict = [''__func__'' \<mapsto> VRef 0]\<rparr>"
  "ex_store 3 = \<lparr>ob_type = Function,
               ob_dict = [''__name__'' \<mapsto> VStr ''f'', ''__wrapped__'' \<mapsto> VRef 0]\<rparr>"
  "ex_store 4 = \<lparr>ob_type = Function,
               ob_dict = [''__name__'' \<mapsto> VStr ''f'',
                          ''__annotations__'' \<mapsto> VDict [(''x'', VStr ''int'')],
                          ''__anotations__'' \<mapsto> VStr ''stale'']\<rparr>"
  "ex_store 5 = blank (Other ''C'')"
  "ex_store 6 = \<lparr>ob_type = Other ''Descriptor'', ob_dict = [''__wrapped__'' \<mapsto> VNone]\<rparr>"
  "ex_store 10 = proxy_object GenericWrapper (VRef 0) (VRef 1) (VRef 0)"
  "ex_store 11 = bound_object (VRef 10) VNone (VRef 0) (VRef 1) (VRef 0)"
  "ex_store 12 = proxy_object GenericWrapper (VRef 2) (VRef 1) (VRef 2)"
  "ex_store 13 = bound_object (VRef 12) VNone (VMethod (VRef 0) (VClass (Other ''C'')))
                   (VRef 1) (VRef 2)"
  "ex_store 14 = proxy_object FunctionWrapper (VRef 0) (VRef 1) (VRef 0)"
  "ex_store 15 = \<lparr>ob_type = BoundMethodWrapper,
                ob_dict = [''_self_instance'' \<mapsto> VNone, ''_self_wrapped'' \<mapsto> VRef 0,
                           ''_self_wrapper'' \<mapsto> VRef 1,
                           ''_self_params'' \<mapsto> VDict [(''tag'', VInt 1)],
                           ''_self_target'' \<mapsto> VRef 0, ''__name__'' \<mapsto> VStr ''f'']\<rparr>"
  "ex_store 16 = proxy_object MethodWrapper (VRef 0) (VRef 1) (VRef 0)"
  "ex_store 17 = proxy_object FunctionWrapper (VRef 4) (VRef 1) (VRef 4)"
  "ex_store 18 = \<lparr>ob_type = GenericWrapper,
                ob_dict = [''_self_wrapped'' \<mapsto> VRef 6, ''_self_wrapper'' \<mapsto> VRef 1,
                           ''_self_params'' \<mapsto> VDict [(''tag'', VInt 1)],
                           ''_self_target'' \<mapsto> VNone]\<rparr>"
  "ex_store 20 = blank (Other ''object'')"
  "ex_store 21 = blank (Other ''object'')"
  by (simp_all add: ex_store_def)

lemma ex_object_22: "ex_store 22 = blank (Other ''object'')"
  by (simp add: ex_store_def)

lemmas ex_simps = ex_objects proxy_object_def bound_object_def blank_def is_wrapper_def
  wrapper_getattribute_def try_AttributeError_def object_getattribute_def py_isinstance_def
  star_star_def

lemmas run_simps = construct_def WrapperBase_init_def BoundGenericWrapper_init_def
  BoundMethodWrapper_init_def setattr_reserved startswith_def object_setattr_def
  WrapperBase_wrapped_def WrapperBase_getattr_def WrapperBase_setattr_def

section \<open>The claims\<close>

text \<open>
  Claim C1. A bound generic proxy \<open>g\<close> and a bound method proxy \<open>m\<close> whose
  receiver is \<^verbatim>\<open>None\<close>, the generic one with a parent whose wrapped object is not a
  \<^verbatim>\<open>classmethod\<close> or \<^verbatim>\<open>staticmethod\<close>: a call with the positional arguments
  \<open>instance # rest\<close> invokes the callback with the wrapped callable bound to
  \<open>instance\<close> (\<^verbatim>\<open>functools.partial(wrapped, instance)\<close>), with \<open>instance\<close> as the
  receiver and with \<open>rest\<close> as the positional arguments, one fewer than at the call
  site. The hypotheses say what the attribute reads of the proxy's fields return.
\<close>

theorem bound_call_shifts_receiver:
  assumes "ga h (VRef g) ''_self_wrapped'' = Inr wrapped"
    and "ga h (VRef g) ''_self_instance'' = Inr VNone"
    and "ga h (VRef g) ''_self_parent'' = Inr parent"
    and "ga h parent ''_self_wrapped'' = Inr original"
    and "py_isinstance ga h original [Classmethod, Staticmethod] = Inr False"
    and "ga h (VRef g) ''_self_wrapper'' = Inr wrapper"
    and "ga h (VRef g) ''_self_params'' = Inr (VDict params)"
    and "ga h (VRef m) ''_self_instance'' = Inr VNone"
    and "ga h (VRef m) ''_self_wrapped'' = Inr wrapped_m"
    and "ga h (VRef m) ''_self_wrapper'' = Inr wrapper_m"
    and "ga h (VRef m) ''_self_params'' = Inr (VDict params_m)"
  shows "BoundGenericWrapper_call ga h g (instance # rest) kwargs =
           Inr (Invoke wrapper
                  [VPartial wrapped [instance], instance, VTuple rest, VDict kwargs] params)
       \<and> BoundMethodWrapper_call ga h m (instance # rest) kwargs =
           Inr (Invoke wrapper_m
                  [VPartial wrapped_m [instance], instance, VTuple rest, VDict kwargs] params_m)
       \<and> length rest + 1 = length (instance # rest)"
  using assms
  by (simp add: BoundGenericWrapper_call_def BoundMethodWrapper_call_def star_star_def)

theorem bound_call_shifts_receiver_witness:
  "BoundGenericWrapper_call (py_getattr (Suc (Suc 0))) ex_store 11 [VRef 5, VInt 7] [(''k'', VInt 8)] =
     Inr (Invoke (VRef 1) [VPartial (VRef 0) [VRef 5], VRef 5, VTuple [VInt 7], VDict [(''k'', VInt 8)]]
            [(''tag'', VInt 1)])
   \<and> BoundMethodWrapper_call (py_getattr (Suc (Suc 0))) ex_store 15 [VRef 5, VInt 7] [(''k'', VInt 8)] =
     Inr (Invoke (VRef 1) [VPartial (VRef 0) [VRef 5], VRef 5, VTuple [VInt 7], VDict [(''k'', VInt 8)]]
            [(''tag'', VInt 1)])"
  using bound_call_shifts_receiver [of "py_getattr (Suc (Suc 0))" ex_store 11 "VRef 0" "VRef 10" "VRef 0" "VRef 1"
              "[(''tag'', VInt 1)]" 15 "VRef 0" "VRef 1" "[(''tag'', VInt 1)]" "VRef 5" "[VInt 7]"
              "[(''k'', VInt 8)]"]
  by (simp add: ex_simps)

text \<open>
  Claim C2. A bound generic proxy whose receiver is \<^verbatim>\<open>None\<close> and whose parent wraps a
  \<^verbatim>\<open>classmethod\<close> or \<^verbatim>\<open>staticmethod\<close> object invokes the callback with the bound
  callable as it is, with \<^verbatim>\<open>None\<close> as the receiver and with the positional arguments
  of the call site unchanged.
\<close>

theorem bound_call_class_level_unshifted:
  assumes "ga h (VRef g) ''_self_wrapped'' = Inr wrapped"
    and "ga h (VRef g) ''_self_instance'' = Inr VNone"
    and "ga h (VRef g) ''_self_parent'' = Inr parent"
    and "ga h parent ''_self_wrapped'' = Inr original"
    and "py_isinstance ga h original [Classmethod, Staticmethod] = Inr True"
    and "ga h (VRef g) ''_self_wrapper'' = Inr wrapper"
    and "ga h (VRef g) ''_self_params'' = Inr (VDict params)"
  shows "BoundGenericWrapper_call ga h g args kwargs =
           Inr (Invoke wrapper [wrapped, VNone, VTuple args, VDict kwargs] params)"
  using assms by (simp add: BoundGenericWrapper_call_def star_star_def)

theorem bound_call_class_level_unshifted_witness:
  "py_isinstance (py_getattr (Suc (Suc 0))) ex_store (VRef 2) [Classmethod, Staticmethod] = Inr True
   \<and> BoundGenericWrapper_call (py_getattr (Suc (Suc 0))) ex_store 13 [VInt 7, VInt 9] [] =
     Inr (Invoke (VRef 1)
            [VMethod (VRef 0) (VClass (Other ''C'')), VNone, VTuple [VInt 7, VInt 9], VDict []]
            [(''tag'', VInt 1)])"
  using bound_call_class_level_unshifted [of "py_getattr (Suc (Suc 0))" ex_store 13
          "VMethod (VRef 0) (VClass (Other ''C''))" "VRef 12" "VRef 2" "VRef 1"
          "[(''tag'', VInt 1)]" "[VInt 7, VInt 9]" "[]"]
  by (simp add: ex_simps)

text \<open>
  Claim C3, as stated, at a concrete call: the plain-function proxy 14 called with the
  one positional argument 7 hands the callback three positional arguments, the wrapped
  function, the argument tuple and the keyword dictionary. No \<^verbatim>\<open>None\<close> stands in second
  position, so the call is not of the shape (Target, null, args, kwargs).
\<close>

theorem function_call_no_receiver_slot:
  "FunctionWrapper_call (py_getattr (Suc (Suc 0))) ex_store 14 [VInt 7] [] =
     Inr (Invoke (VRef 1) [VRef 0, VTuple [VInt 7], VDict []] [(''tag'', VInt 1)])
   \<and> FunctionWrapper_call (py_getattr (Suc (Suc 0))) ex_store 14 [VInt 7] [] \<noteq>
     Inr (Invoke (VRef 1) [VRef 0, VNone, VTuple [VInt 7], VDict []] [(''tag'', VInt 1)])"
  by (simp add: FunctionWrapper_call_def ex_simps)

text \<open>
  Claim C3, amended. Every call of a plain-function proxy invokes the callback with the
  shape (Target, positional arguments, keyword arguments) plus the configuration as
  keyword arguments: three positional arguments and no receiver position, which is the
  argument list the class declares in \<^verbatim>\<open>WRAPPER_ARGLIST\<close>.
\<close>

theorem function_call_shape:
  assumes "ga h (VRef self) ''_self_wrapper'' = Inr wrapper"
    and "ga h (VRef self) ''_self_wrapped'' = Inr wrapped"
    and "ga h (VRef self) ''_self_params'' = Inr (VDict params)"
  shows "FunctionWrapper_call ga h self args kwargs =
           Inr (Invoke wrapper [wrapped, VTuple args, VDict kwargs] params)
         \<and> WRAPPER_ARGLIST FunctionWrapper =
             Some (VTuple [VStr ''wrapped'', VStr ''args'', VStr ''kwargs''])"
  using assms by (simp add: FunctionWrapper_call_def star_star_def)

theorem function_call_shape_witness:
  "FunctionWrapper_call (py_getattr (Suc (Suc 0))) ex_store 14 [VInt 7] [(''k'', VInt 8)] =
     Inr (Invoke (VRef 1) [VRef 0, VTuple [VInt 7], VDict [(''k'', VInt 8)]] [(''tag'', VInt 1)])"
  using function_call_shape [of "py_getattr (Suc (Suc 0))" ex_store 14 "VRef 1" "VRef 0"
          "[(''tag'', VInt 1)]" "[VInt 7]" "[(''k'', VInt 8)]"]
  by (simp add: ex_simps)

text \<open>
  Claim C4, as stated, at a concrete input: object 3 is a function decorated with
  \<^verbatim>\<open>functools.wraps\<close>, so it carries \<^verbatim>\<open>__wrapped__\<close> (object 0). Wrapped without an
  adapter, its proxy compares unequal to it and hashes as object 0, not as object 3.
\<close>

theorem wrap_decorated_counterexample:
  "wrap_eq (Suc (Suc 0)) object_eq FunctionWrapper ex_store 20 (VRef 3) (VRef 1) (VRef 3) =
     Inr (VBool False)
   \<and> wrap_hash (Suc (Suc 0)) object_hash FunctionWrapper ex_store 20 (VRef 3) (VRef 1) = Inr 0
   \<and> object_hash ex_store (VRef 3) = Inr 3"
  by (simp add: wrap_eq_def wrap_hash_def WrapperBase_eq_def WrapperBase_hash_def object_eq_def
        run_simps ex_simps)

text \<open>
  Claim C4, amended. For every proxy \<open>p\<close> whose anchor reads as \<open>T\<close> and every value
  \<open>X\<close>, \<^verbatim>\<open>p.__eq__(X)\<close> is \<^verbatim>\<open>T == X\<close> and \<^verbatim>\<open>hash(p)\<close> is \<^verbatim>\<open>hash(T)\<close>. In
  particular, when \<open>F\<close> is an ordinary object that carries no \<^verbatim>\<open>__wrapped__\<close> of its
  own, wrapping it without an adapter succeeds and the proxy compares and hashes as
  \<open>F\<close>; under the host's default equality the proxy equals \<open>F\<close>.
\<close>

theorem eq_hash_follow_anchor:
  "(ga h (VRef p) ''_self_target'' = Inr T \<longrightarrow>
      WrapperBase_eq ga eq h p X = eq h T X \<and> WrapperBase_hash ga hsh h p = hsh h T)
   \<and> (\<not> is_wrapper (ob_type (h f)) \<and> ob_dict (h f) ''__wrapped__'' = None \<and> new \<noteq> f \<and>
        is_wrapper c \<longrightarrow>
        (\<exists>h'. construct c (py_getattr (Suc d)) (py_setattr (Suc d)) h new (VRef f) wrapper VNone
                 params = Inr h'
             \<and> WrapperBase_eq (py_getattr (Suc d)) eq h' new X = eq h' (VRef f) X
             \<and> WrapperBase_hash (py_getattr (Suc d)) hsh h' new = hsh h' (VRef f)
             \<and> WrapperBase_eq (py_getattr (Suc d)) object_eq h' new (VRef f) = Inr (VBool True)))"
proof (intro conjI impI)
  assume "ga h (VRef p) ''_self_target'' = Inr T"
  then show "WrapperBase_eq ga eq h p X = eq h T X" "WrapperBase_hash ga hsh h p = hsh h T"
    by (simp_all add: WrapperBase_eq_def WrapperBase_hash_def)
next
  assume a: "\<not> is_wrapper (ob_type (h f)) \<and> ob_dict (h f) ''__wrapped__'' = None \<and> new \<noteq> f \<and>
        is_wrapper c"
  then obtain h' where c: "construct c (py_getattr (Suc d)) (py_setattr (Suc d)) h new (VRef f)
      wrapper VNone params = Inr h'"
    using construct_plain by blast
  then have i: "WrapperBase_init (py_getattr (Suc d)) (py_setattr (Suc d)) (h(new := blank c)) new
      (VRef f) wrapper VNone params = Inr h'"
    by (simp add: construct_def)
  let ?h3 = "(h(new := blank c))(new := ((h(new := blank c)) new)\<lparr>ob_dict :=
      (ob_dict ((h(new := blank c)) new))(''_self_wrapped'' \<mapsto> VRef f, ''_self_wrapper'' \<mapsto> wrapper,
         ''_self_params'' \<mapsto> params)\<rparr>)"
  have r: "py_getattr (Suc d) ?h3 (VRef f) ''__wrapped__'' = Inl AttributeError"
    using a by (simp add: object_getattribute_def)
  from init_summary [OF i] r have t: "ob_dict (h' new) ''_self_target'' = Some (VRef f)"
    and ty: "ob_type (h' new) = c"
    by (auto simp: blank_def)
  have g: "py_getattr (Suc d) h' (VRef new) ''_self_target'' = Inr (VRef f)"
    by (rule py_getattr_field) (use a t ty in \<open>simp_all add: is_property_def\<close>)
  show "\<exists>h'. construct c (py_getattr (Suc d)) (py_setattr (Suc d)) h new (VRef f) wrapper VNone
                 params = Inr h'
             \<and> WrapperBase_eq (py_getattr (Suc d)) eq h' new X = eq h' (VRef f) X
             \<and> WrapperBase_hash (py_getattr (Suc d)) hsh h' new = hsh h' (VRef f)
             \<and> WrapperBase_eq (py_getattr (Suc d)) object_eq h' new (VRef f) = Inr (VBool True)"
    by (rule exI [of _ h'])
       (use c g in \<open>simp add: WrapperBase_eq_def WrapperBase_hash_def object_eq_def\<close>)
qed

theorem eq_hash_follow_anchor_witness:
  "py_getattr (Suc 0) ex_store (VRef 10) ''_self_target'' = Inr (VRef 0)
   \<and> WrapperBase_eq (py_getattr (Suc 0)) object_eq ex_store 10 (VRef 1) = Inr (VBool False)
   \<and> WrapperBase_hash (py_getattr (Suc 0)) object_hash ex_store 10 = Inr 0
   \<and> ob_dict (ex_store 0) ''__wrapped__'' = None
   \<and> wrap_eq (Suc 0) object_eq FunctionWrapper ex_store 20 (VRef 0) (VRef 1) (VRef 0) = Inr (VBool True)
   \<and> wrap_hash (Suc 0) object_hash FunctionWrapper ex_store 20 (VRef 0) (VRef 1) = Inr 0"
  using eq_hash_follow_anchor [of "py_getattr (Suc 0)" ex_store 10 "VRef 0" object_eq "VRef 1"
          object_hash 0 20 FunctionWrapper 0 "VRef 1" "VDict []"]
  by (auto simp: wrap_eq_def wrap_hash_def object_eq_def WrapperBase_eq_def WrapperBase_hash_def
        ex_simps)

text \<open>
  Claim C5, as stated, at a concrete input: object 3 carries \<^verbatim>\<open>__wrapped__\<close> (object
  0). Wrapped, and the proxy wrapped again, the outermost proxy's \<^verbatim>\<open>__wrapped__\<close> is
  object 0 and not the entity that was wrapped, object 3.
\<close>

theorem chain_decorated_counterexample:
  "chain_anchor (Suc (Suc 0)) ex_store (VRef 3)
     [(20, FunctionWrapper, VRef 1), (21, FunctionWrapper, VRef 1)] [] 21 = Inr (VRef 0)
   \<and> VRef 0 \<noteq> VRef 3"
  by (simp add: chain_anchor_def run_simps ex_simps)

text \<open>
  Claim C5, amended. Let \<open>F\<close> be an ordinary object that carries no \<^verbatim>\<open>__wrapped__\<close>
  of its own. Wrapping \<open>F\<close> and then wrapping each resulting proxy again, without
  adapters, builds the chain whenever the host's recursion depth is at least the length
  of the chain; and in every chain so built the \<^verbatim>\<open>__wrapped__\<close> of every proxy, the
  outermost included, is \<open>F\<close> and no intermediate proxy. The anchor is not recomputed:
  after any attribute write through the proxy under a name outside the \<^verbatim>\<open>_self_\<close>
  namespace, \<^verbatim>\<open>__wrapped__\<close> still reads \<open>F\<close>.
\<close>

theorem chain_anchor_is_original:
  assumes "\<not> is_wrapper (ob_type (h f))" and "ob_dict (h f) ''__wrapped__'' = None"
    and "\<forall>(p, c, cb) \<in> set chain. c \<in> {GenericWrapper, FunctionWrapper, MethodWrapper} \<and> p \<noteq> f"
    and "distinct (map fst chain)"
  shows "(length chain \<le> Suc (Suc d) \<longrightarrow>
           (\<exists>h'. wrap_chain (Suc (Suc d)) h (VRef f) chain = Inr h'))
       \<and> (\<forall>h'. wrap_chain (Suc (Suc d)) h (VRef f) chain = Inr h' \<longrightarrow>
           (\<forall>p \<in> fst ` set chain.
              py_getattr (Suc (Suc d)) h' (VRef p) ''__wrapped__'' = Inr (VRef f)
              \<and> (\<forall>k name value h''.
                    \<not> startswith name ''_self_'' \<and> py_setattr k h' (VRef p) name value = Inr h''
                    \<longrightarrow> py_getattr (Suc (Suc d)) h'' (VRef p) ''__wrapped__'' = Inr (VRef f))))"
proof (intro conjI impI allI ballI)
  assume len: "length chain \<le> Suc (Suc d)"
  have c: "\<forall>(p, c, cb) \<in> set chain. is_wrapper c \<and> p \<noteq> f \<and> p \<notin> set []"
    using assms(3) by (auto simp: is_wrapper_def)
  have l: "linked h f [] (VRef f)" by simp
  show "\<exists>h'. wrap_chain (Suc (Suc d)) h (VRef f) chain = Inr h'"
    by (rule chain_total [OF l assms(1) assms(2) c assms(4)]) (use len in simp)
next
  fix h' p
  assume built: "wrap_chain (Suc (Suc d)) h (VRef f) chain = Inr h'"
    and p: "p \<in> fst ` set chain"
  have c: "\<forall>(p, c, cb) \<in> set chain. is_wrapper c \<and> p \<noteq> f"
    using assms(3) by (auto simp: is_wrapper_def)
  from chain_inv [OF built assms(1) assms(2) _ c assms(4)] p
  have w: "is_wrapper (ob_type (h' p))" and t: "ob_dict (h' p) ''_self_target'' = Some (VRef f)"
    by auto
  show "py_getattr (Suc (Suc d)) h' (VRef p) ''__wrapped__'' = Inr (VRef f)"
    using w t by (rule py_getattr_wrapped)
  fix k name v h''
  assume s: "\<not> startswith name ''_self_'' \<and> py_setattr k h' (VRef p) name v = Inr h''"
  then have "h'' p = h' p" using w py_setattr_proxy_unchanged by blast
  with w t show "py_getattr (Suc (Suc d)) h'' (VRef p) ''__wrapped__'' = Inr (VRef f)"
    by (intro py_getattr_wrapped) simp_all
qed

theorem chain_anchor_is_original_witness:
  "\<not> is_wrapper (ob_type (ex_store 0)) \<and> ob_dict (ex_store 0) ''__wrapped__'' = None
   \<and> length [(20::nat, FunctionWrapper, VRef 1), (21, GenericWrapper, VRef 1),
              (22, MethodWrapper, VRef 1)] \<le> Suc (Suc (Suc (Suc 0)))
   \<and> chain_anchor (Suc (Suc (Suc (Suc 0)))) ex_store (VRef 0)
       [(20, FunctionWrapper, VRef 1), (21, GenericWrapper, VRef 1), (22, MethodWrapper, VRef 1)]
       [] 22 = Inr (VRef 0)
   \<and> chain_anchor (Suc (Suc (Suc (Suc 0)))) ex_store (VRef 0)
       [(20, FunctionWrapper, VRef 1), (21, GenericWrapper, VRef 1), (22, MethodWrapper, VRef 1)]
       [(VRef 22, ''__wrapped__'', VRef 1)] 22 = Inr (VRef 0)"
proof -
  let ?chain = "[(20::nat, FunctionWrapper, VRef 1), (21, GenericWrapper, VRef 1),
                 (22, MethodWrapper, VRef 1)]"
  let ?D = "Suc (Suc (Suc (Suc 0)))"
  have a: "\<not> is_wrapper (ob_type (ex_store 0))" by (simp add: ex_simps)
  have b: "ob_dict (ex_store 0) ''__wrapped__'' = None" by (simp add: ex_simps)
  have c: "\<forall>(p, c, cb) \<in> set ?chain. c \<in> {GenericWrapper, FunctionWrapper, MethodWrapper} \<and> p \<noteq> 0"
    by simp
  have d: "distinct (map fst ?chain)" by simp
  have len: "length ?chain \<le> ?D" by simp
  note t = chain_anchor_is_original [of ex_store 0 ?chain "Suc (Suc 0)", OF a b c d]
  from t [THEN conjunct1, THEN mp, OF len]
  obtain H where H: "wrap_chain ?D ex_store (VRef 0) ?chain = Inr H" by blast
  have m: "22 \<in> fst ` set ?chain" by simp
  note u = t [THEN conjunct2, rule_format, OF H m]
  have e: "py_getattr ?D H (VRef 22) ''__wrapped__'' = Inr (VRef 0)"
    using u by (rule conjunct1)
  obtain H2 where H2: "py_setattr ?D H (VRef 22) ''__wrapped__'' (VRef 1) = Inr H2"
  proof -
    have "\<exists>H H2. wrap_chain ?D ex_store (VRef 0) ?chain = Inr H \<and>
            py_setattr ?D H (VRef 22) ''__wrapped__'' (VRef 1) = Inr H2"
      by (simp add: run_simps ex_simps ex_object_22)
    with H show ?thesis using that by auto
  qed
  have n: "\<not> startswith ''__wrapped__'' ''_self_''" by (simp add: startswith_def)
  have f: "py_getattr ?D H2 (VRef 22) ''__wrapped__'' = Inr (VRef 0)"
    using u [THEN conjunct2, rule_format, OF conjI [OF n H2]] .
  have 1: "chain_anchor ?D ex_store (VRef 0) ?chain [] 22 = Inr (VRef 0)"
    unfolding chain_anchor_def H using e by simp
  have 2: "chain_anchor ?D ex_store (VRef 0) ?chain
             [(VRef 22, ''__wrapped__'', VRef 1)] 22 = Inr (VRef 0)"
    unfolding chain_anchor_def H using f H2 by simp
  from a b len 1 2 show ?thesis by (intro conjI)
qed

text \<open>
  Claim C6 at a failing input. Object 4 is a function with the annotation mapping
  \<^verbatim>\<open>{'x': 'int'}\<close> that also carries an attribute spelt \<^verbatim>\<open>__anotations__\<close>; proxy 17
  wraps it. Reading \<^verbatim>\<open>__annotations__\<close> on the proxy returns the misspelt attribute's
  value, not the annotation mapping of the wrapped function. On a wrapped function
  without the misspelt attribute (proxy 14 around object 0) the property getter itself
  raises \<^verbatim>\<open>AttributeError\<close>.
\<close>

theorem annotations_read_misspelt:
  "py_getattr (Suc (Suc (Suc 0))) ex_store (VRef 17) ''__annotations__'' = Inr (VStr ''stale'')
   \<and> py_getattr (Suc (Suc (Suc 0))) ex_store (VRef 4) ''__annotations__'' =
       Inr (VDict [(''x'', VStr ''int'')])
   \<and> WrapperBase_annotations (py_getattr (Suc (Suc 0))) ex_store 14 = Inl AttributeError
   \<and> py_getattr (Suc (Suc 0)) ex_store (VRef 0) ''__annotations__'' =
       Inr (VDict [(''x'', VStr ''int'')])"
  by (simp add: WrapperBase_annotations_def WrapperBase_getattr_def ex_simps)

text \<open>
  Claim C7. Whatever \<^verbatim>\<open>self.__eq__(other)\<close> returns, \<^verbatim>\<open>__ne__\<close> returns its logical
  negation, except that the sentinel \<^verbatim>\<open>NotImplemented\<close> is returned unchanged; nothing
  is raised.
\<close>

theorem ne_negates_eq:
  assumes "self_eq other = Inr result"
  shows "WrapperBase_ne self_eq other =
           Inr (if result = VNotImplemented then VNotImplemented
                else VBool (\<not> py_truth result))"
  using assms by (simp add: WrapperBase_ne_def)

theorem ne_negates_eq_witness:
  "WrapperBase_eq (py_getattr (Suc (Suc 0))) object_eq ex_store 10 (VRef 1) = Inr (VBool False)
   \<and> WrapperBase_ne (WrapperBase_eq (py_getattr (Suc (Suc 0))) object_eq ex_store 10) (VRef 1) =
       Inr (VBool True)
   \<and> WrapperBase_ne (WrapperBase_eq (py_getattr (Suc (Suc 0))) object_eq ex_store 10) (VRef 0) =
       Inr (VBool False)
   \<and> WrapperBase_ne undecided_eq (VRef 1) = Inr VNotImplemented"
  using ne_negates_eq [of "WrapperBase_eq (py_getattr (Suc (Suc 0))) object_eq ex_store 10"
          "VRef 1" "VBool False"]
    ne_negates_eq [of "WrapperBase_eq (py_getattr (Suc (Suc 0))) object_eq ex_store 10"
          "VRef 0" "VBool True"]
    ne_negates_eq [of undecided_eq "VRef 1" VNotImplemented]
  by (simp add: WrapperBase_eq_def object_eq_def undecided_eq_def ex_simps)

text \<open>
  Claim C8. A write under a name that starts with \<^verbatim>\<open>_self_\<close> updates the proxy's own
  dictionary at that name and changes no other object of the store, the wrapped object
  included. A write under any other name is the same write on the wrapped object, and
  whenever it returns, the proxy's own object is as it was; on an ordinary wrapped object
  the write stores the value in that object's dictionary.
\<close>

theorem setattr_frame:
  "(startswith name ''_self_'' \<longrightarrow>
      WrapperBase_setattr ga sa h self name value =
        Inr (h(self := (h self)\<lparr>ob_dict := (ob_dict (h self))(name \<mapsto> value)\<rparr>)))
   \<and> (\<not> startswith name ''_self_'' \<and> is_wrapper (ob_type (h self)) \<and>
        py_getattr d h (VRef self) ''_self_wrapped'' = Inr target \<longrightarrow>
        WrapperBase_setattr (py_getattr d) (py_setattr d) h self name value =
          py_setattr d h target name value
        \<and> (\<forall>h'. py_setattr d h target name value = Inr h' \<longrightarrow> h' self = h self))
   \<and> (\<not> is_wrapper (ob_type (h t)) \<and> name \<noteq> ''__class__'' \<longrightarrow>
        py_setattr (Suc d) h (VRef t) name value =
          Inr (h(t := (h t)\<lparr>ob_dict := (ob_dict (h t))(name \<mapsto> value)\<rparr>)))"
proof (intro conjI impI allI)
  assume "startswith name ''_self_''"
  then show "WrapperBase_setattr ga sa h self name value =
        Inr (h(self := (h self)\<lparr>ob_dict := (ob_dict (h self))(name \<mapsto> value)\<rparr>))"
    by (rule setattr_reserved)
next
  assume a: "\<not> startswith name ''_self_'' \<and> is_wrapper (ob_type (h self)) \<and>
        py_getattr d h (VRef self) ''_self_wrapped'' = Inr target"
  then show "WrapperBase_setattr (py_getattr d) (py_setattr d) h self name value =
          py_setattr d h target name value"
    by (simp add: WrapperBase_setattr_def)
  fix h'
  assume "py_setattr d h target name value = Inr h'"
  with a show "h' self = h self"
    using py_setattr_proxy_unchanged by blast
next
  assume "\<not> is_wrapper (ob_type (h t)) \<and> name \<noteq> ''__class__''"
  then show "py_setattr (Suc d) h (VRef t) name value =
          Inr (h(t := (h t)\<lparr>ob_dict := (ob_dict (h t))(name \<mapsto> value)\<rparr>))"
    by (simp add: object_setattr_def)
qed

theorem setattr_frame_witness:
  "startswith ''_self_note'' ''_self_''
   \<and> WrapperBase_setattr (py_getattr (Suc 0)) (py_setattr (Suc 0)) ex_store 10 ''_self_note'' (VInt 3) =
       Inr (ex_store(10 := (ex_store 10)\<lparr>ob_dict := (ob_dict (ex_store 10))(''_self_note'' \<mapsto> VInt 3)\<rparr>))
   \<and> \<not> startswith ''__doc__'' ''_self_''
   \<and> py_getattr (Suc 0) ex_store (VRef 10) ''_self_wrapped'' = Inr (VRef 0)
   \<and> WrapperBase_setattr (py_getattr (Suc 0)) (py_setattr (Suc 0)) ex_store 10 ''__doc__'' (VStr ''d'') =
       Inr (ex_store(0 := (ex_store 0)\<lparr>ob_dict := (ob_dict (ex_store 0))(''__doc__'' \<mapsto> VStr ''d'')\<rparr>))
   \<and> (ex_store(0 := (ex_store 0)\<lparr>ob_dict := (ob_dict (ex_store 0))(''__doc__'' \<mapsto> VStr ''d'')\<rparr>)) 10
       = ex_store 10"
proof -
  note r = setattr_frame [of "''_self_note''" "py_getattr (Suc 0)" "py_setattr (Suc 0)" ex_store 10
          "VInt 3" "Suc 0" "VRef 0" 0]
  note f = setattr_frame [of "''__doc__''" "py_getattr (Suc 0)" "py_setattr (Suc 0)" ex_store 10
          "VStr ''d''" "Suc 0" "VRef 0" 0]
  note s = setattr_frame [of "''__doc__''" "py_getattr (Suc 0)" "py_setattr (Suc 0)" ex_store 10
          "VStr ''d''" 0 "VRef 0" 0]
  have a: "startswith ''_self_note'' ''_self_''" by (simp add: startswith_def)
  have b: "\<not> startswith ''__doc__'' ''_self_''" by (simp add: startswith_def)
  have w: "is_wrapper (ob_type (ex_store 10))" by (simp add: ex_simps)
  have g: "py_getattr (Suc 0) ex_store (VRef 10) ''_self_wrapped'' = Inr (VRef 0)"
    by (simp add: ex_simps)
  have p: "\<not> is_wrapper (ob_type (ex_store 0)) \<and> ''__doc__'' \<noteq> ''__class__''"
    by (simp add: ex_simps)
  note 1 = r [THEN conjunct1, THEN mp, OF a]
  note 2 = f [THEN conjunct2, THEN conjunct1, THEN mp, OF conjI [OF b conjI [OF w g]]]
  note 3 = s [THEN conjunct2, THEN conjunct2, THEN mp, OF p]
  from 2 3 have 4: "WrapperBase_setattr (py_getattr (Suc 0)) (py_setattr (Suc 0)) ex_store 10
      ''__doc__'' (VStr ''d'') =
       Inr (ex_store(0 := (ex_store 0)\<lparr>ob_dict := (ob_dict (ex_store 0))(''__doc__'' \<mapsto> VStr ''d'')\<rparr>))"
    by simp
  from 2 3 have 5: "(ex_store(0 := (ex_store 0)\<lparr>ob_dict := (ob_dict (ex_store 0))(''__doc__'' \<mapsto> VStr ''d'')\<rparr>)) 10
       = ex_store 10"
    by blast
  from a 1 b g 4 5 show ?thesis by (intro conjI)
qed

text \<open>
  Claim C9, as stated, at a concrete input: wrapping the descriptor object 6, whose
  \<^verbatim>\<open>__wrapped__\<close> is \<^verbatim>\<open>None\<close>, gives a proxy whose anchor is \<^verbatim>\<open>None\<close> (proxy 18
  is such a proxy). Its \<^verbatim>\<open>__get__\<close> passes that anchor as the adapter, and the
  initialiser reads \<^verbatim>\<open>adapter is None\<close> as "no adapter": the bound proxy's anchor is
  computed from the descriptor (object 0) and differs from the parent's.
\<close>

theorem bound_anchor_none_counterexample:
  "chain_anchor (Suc (Suc 0)) ex_store (VRef 6) [(20, GenericWrapper, VRef 1)] [] 20 = Inr VNone
   \<and> py_getattr (Suc (Suc 0)) ex_store (VRef 18) ''__wrapped__'' = Inr VNone
   \<and> anchors_after_get (Suc (Suc 0)) (const_get (VRef 0)) ex_store 18 21 (VRef 5)
       (VClass (Other ''C'')) = Inr (VNone, VRef 0)
   \<and> VNone \<noteq> VRef 0"
  by (simp add: chain_anchor_def anchors_after_get_def const_get_def GenericWrapper_get_def
        run_simps ex_simps)

text \<open>
  Claim C9, amended. For every unbound generic or method proxy whose anchor is not
  \<^verbatim>\<open>None\<close>, every bound proxy that \<^verbatim>\<open>__get__\<close> produces from it has the parent's
  anchor: \<^verbatim>\<open>__wrapped__\<close> reads the same value on both, and \<^verbatim>\<open>__eq__\<close> and
  \<^verbatim>\<open>__hash__\<close> of the bound proxy are those of the parent.
\<close>

theorem bound_proxy_keeps_anchor:
  assumes "py_getattr (Suc (Suc d)) h (VRef self) ''_self_wrapped'' = Inr w"
    and "bind h w instance owner = Inr (descriptor, h1)"
    and "is_wrapper (ob_type (h1 self))"
    and "ob_dict (h1 self) ''_self_target'' = Some T"
    and "T \<noteq> VNone" and "new \<noteq> self"
  shows "\<forall>b h2.
           (GenericWrapper_get (py_getattr (Suc (Suc d))) (py_setattr (Suc (Suc d))) bind new h
              self instance owner = Inr (b, h2)
            \<or> MethodWrapper_get (py_getattr (Suc (Suc d))) (py_setattr (Suc (Suc d))) bind new h
              self instance owner = Inr (b, h2))
           \<longrightarrow> b = VRef new
               \<and> py_getattr (Suc (Suc d)) h2 (VRef self) ''__wrapped__'' = Inr T
               \<and> py_getattr (Suc (Suc d)) h2 (VRef new) ''__wrapped__'' = Inr T
               \<and> WrapperBase_eq (py_getattr (Suc (Suc d))) eq h2 new X =
                   WrapperBase_eq (py_getattr (Suc (Suc d))) eq h2 self X
               \<and> WrapperBase_hash (py_getattr (Suc (Suc d))) hsh h2 new =
                   WrapperBase_hash (py_getattr (Suc (Suc d))) hsh h2 self"
proof (intro allI impI)
  fix b h2
  assume "GenericWrapper_get (py_getattr (Suc (Suc d))) (py_setattr (Suc (Suc d))) bind new h
              self instance owner = Inr (b, h2)
            \<or> MethodWrapper_get (py_getattr (Suc (Suc d))) (py_setattr (Suc (Suc d))) bind new h
              self instance owner = Inr (b, h2)"
  then have k: "b = VRef new \<and> h2 self = h1 self \<and> is_wrapper (ob_type (h2 new)) \<and>
         ob_dict (h2 new) ''_self_target'' = Some T"
  proof
    assume g: "GenericWrapper_get (py_getattr (Suc (Suc d))) (py_setattr (Suc (Suc d))) bind new h
              self instance owner = Inr (b, h2)"
    show ?thesis by (rule generic_get_anchor [OF g assms])
  next
    assume m: "MethodWrapper_get (py_getattr (Suc (Suc d))) (py_setattr (Suc (Suc d))) bind new h
              self instance owner = Inr (b, h2)"
    show ?thesis by (rule method_get_anchor [OF m assms])
  qed
  have ps: "py_getattr (Suc (Suc d)) h2 (VRef self) ''_self_target'' = Inr T"
    by (rule py_getattr_field) (use k assms in \<open>simp_all add: is_property_def\<close>)
  have pn: "py_getattr (Suc (Suc d)) h2 (VRef new) ''_self_target'' = Inr T"
    by (rule py_getattr_field) (use k in \<open>simp_all add: is_property_def\<close>)
  have ws: "py_getattr (Suc (Suc d)) h2 (VRef self) ''__wrapped__'' = Inr T"
    by (rule py_getattr_wrapped) (use k assms in simp_all)
  have wn: "py_getattr (Suc (Suc d)) h2 (VRef new) ''__wrapped__'' = Inr T"
    by (rule py_getattr_wrapped) (use k in simp_all)
  show "b = VRef new
               \<and> py_getattr (Suc (Suc d)) h2 (VRef self) ''__wrapped__'' = Inr T
               \<and> py_getattr (Suc (Suc d)) h2 (VRef new) ''__wrapped__'' = Inr T
               \<and> WrapperBase_eq (py_getattr (Suc (Suc d))) eq h2 new X =
                   WrapperBase_eq (py_getattr (Suc (Suc d))) eq h2 self X
               \<and> WrapperBase_hash (py_getattr (Suc (Suc d))) hsh h2 new =
                   WrapperBase_hash (py_getattr (Suc (Suc d))) hsh h2 self"
    using k ps pn ws wn by (simp add: WrapperBase_eq_def WrapperBase_hash_def)
qed

theorem bound_proxy_keeps_anchor_witness:
  "py_getattr (Suc (Suc 0)) ex_store (VRef 10) ''_self_wrapped'' = Inr (VRef 0)
   \<and> function_get ex_store (VRef 0) (VRef 5) (VClass (Other ''C'')) =
       Inr (VMethod (VRef 0) (VRef 5), ex_store)
   \<and> ob_dict (ex_store 10) ''_self_target'' = Some (VRef 0)
   \<and> anchors_after_get (Suc (Suc 0)) function_get ex_store 10 20 (VRef 5) (VClass (Other ''C''))
       = Inr (VRef 0, VRef 0)"
  using bound_proxy_keeps_anchor [of 0 ex_store 10 "VRef 0" function_get "VRef 5"
          "VClass (Other ''C'')" "VMethod (VRef 0) (VRef 5)" ex_store "VRef 0" 20 object_eq
          "VRef 1" object_hash]
  by (simp add: anchors_after_get_def function_get_def GenericWrapper_get_def run_simps ex_simps)

text \<open>
  Claim C10. With the receiver \<^verbatim>\<open>None\<close> on the receiver-shifting path (for the generic
  bound proxy: the parent's wrapped object is not a \<^verbatim>\<open>classmethod\<close> or
  \<^verbatim>\<open>staticmethod\<close>), a call with no positional argument raises \<^verbatim>\<open>IndexError\<close> at
  \<^verbatim>\<open>args[0]\<close>; the callback is not invoked.
\<close>

theorem bound_call_no_args_fails:
  assumes "ga h (VRef g) ''_self_wrapped'' = Inr wrapped"
    and "ga h (VRef g) ''_self_instance'' = Inr VNone"
    and "ga h (VRef g) ''_self_parent'' = Inr parent"
    and "ga h parent ''_self_wrapped'' = Inr original"
    and "py_isinstance ga h original [Classmethod, Staticmethod] = Inr False"
    and "ga h (VRef m) ''_self_instance'' = Inr VNone"
  shows "BoundGenericWrapper_call ga h g [] kwargs = Inl IndexError
       \<and> BoundMethodWrapper_call ga h m [] kwargs = Inl IndexError"
  using assms by (simp add: BoundGenericWrapper_call_def BoundMethodWrapper_call_def)

theorem bound_call_no_args_fails_witness:
  "BoundGenericWrapper_call (py_getattr (Suc (Suc 0))) ex_store 11 [] [(''k'', VInt 8)] = Inl IndexError
   \<and> BoundMethodWrapper_call (py_getattr (Suc (Suc 0))) ex_store 15 [] [(''k'', VInt 8)] = Inl IndexError"
  using bound_call_no_args_fails [of "py_getattr (Suc (Suc 0))" ex_store 11 "VRef 0" "VRef 10"
          "VRef 0" 15 "[(''k'', VInt 8)]"]
  by (simp add: ex_simps)

end
